theory Spec2Isabelle
  imports Main "HOL-Library.Word"
begin

unbundle bit_operations_syntax

section \<open>Contract violations\<close>

text \<open>
  Every \<^verbatim>\<open>assert\<close>, \<^verbatim>\<open>llvm_unreachable\<close> and undefined division of the source is a
  branch of the model that returns one of these values on the left of a sum.
\<close>

datatype error =
    Incompatible_types
  | Fixed_request_on_scalable
  | Align_must_be_non_zero
  | Division_by_zero
  | Type_is_not_extended
  | Unknown_type
  | Unrecognized_extended_type

section \<open>StackOffset (TypeSize.h)\<close>

text \<open>The five \<^verbatim>\<open>int64_t\<close> members of \<^verbatim>\<open>class StackOffset\<close>.\<close>

record StackOffset =
  Fixed :: "64 word"
  ScalableV :: "64 word"
  ScalableM :: "64 word"
  ScalableN :: "64 word"
  ScalableMN :: "64 word"

text \<open>The private constructor: a member initialiser list, one member per parameter.\<close>

definition StackOffset_ctor ::
  "64 word \<Rightarrow> 64 word \<Rightarrow> 64 word \<Rightarrow> 64 word \<Rightarrow> 64 word \<Rightarrow> StackOffset" where
  "StackOffset_ctor F SV SM SN SMN =
     \<lparr>Fixed = F, ScalableV = SV, ScalableM = SM, ScalableN = SN, ScalableMN = SMN\<rparr>"

text \<open>
  \<^verbatim>\<open>static StackOffset get(Fixed, ScalableV, ScalableM, ScalableN, ScalableMN)
    { return {Fixed, ScalableV, ScalableM, ScalableM, ScalableMN}; }\<close>
\<close>

definition StackOffset_get ::
  "64 word \<Rightarrow> 64 word \<Rightarrow> 64 word \<Rightarrow> 64 word \<Rightarrow> 64 word \<Rightarrow> StackOffset" where
  "StackOffset_get F SV SM SN SMN = StackOffset_ctor F SV SM SM SMN"

definition StackOffset_getFixed :: "64 word \<Rightarrow> StackOffset" where
  "StackOffset_getFixed F = StackOffset_ctor F 0 0 0 0"

definition StackOffset_getScalableV :: "64 word \<Rightarrow> StackOffset" where
  "StackOffset_getScalableV S = StackOffset_ctor 0 S 0 0 0"

definition StackOffset_getScalableM :: "64 word \<Rightarrow> StackOffset" where
  "StackOffset_getScalableM S = StackOffset_ctor 0 0 S 0 0"

definition StackOffset_getScalableN :: "64 word \<Rightarrow> StackOffset" where
  "StackOffset_getScalableN S = StackOffset_ctor 0 0 0 S 0"

definition StackOffset_getScalableMN :: "64 word \<Rightarrow> StackOffset" where
  "StackOffset_getScalableMN S = StackOffset_ctor 0 0 0 0 S"

text \<open>The getters.\<close>

definition getFixed :: "StackOffset \<Rightarrow> 64 word" where
  "getFixed s = Fixed s"

definition getScalableV :: "StackOffset \<Rightarrow> 64 word" where
  "getScalableV s = ScalableV s"

definition getScalableM :: "StackOffset \<Rightarrow> 64 word" where
  "getScalableM s = ScalableM s"

definition getScalableN :: "StackOffset \<Rightarrow> 64 word" where
  "getScalableN s = ScalableN s"

definition getScalableMN :: "StackOffset \<Rightarrow> 64 word" where
  "getScalableMN s = ScalableMN s"

section \<open>FixedOrScalableQuantity (TypeSize.h)\<close>

text \<open>
  \<^verbatim>\<open>enum class ScaleID : uint8_t { None = 0, V = 1 << 0, M = 1 << 1, N = 1 << 2, MN = M | N }\<close>.
  The constructors carry a prefix because \<open>None\<close> is taken by \<open>option\<close>.
\<close>

datatype ScaleID = Scale_None | Scale_V | Scale_M | Scale_N | Scale_MN

fun ScaleID_code :: "ScaleID \<Rightarrow> 8 word" where
  "ScaleID_code Scale_None = 0"
| "ScaleID_code Scale_V = push_bit 0 1"
| "ScaleID_code Scale_M = push_bit 1 1"
| "ScaleID_code Scale_N = push_bit 2 1"
| "ScaleID_code Scale_MN = push_bit 1 1 OR push_bit 2 1"

text \<open>
  The two protected members. The template parameter \<^verbatim>\<open>ValueTy\<close> is the type variable:
  \<open>32 word\<close> for \<^verbatim>\<open>ElementCount\<close> (\<^verbatim>\<open>unsigned\<close>), \<open>64 word\<close> for \<^verbatim>\<open>TypeSize\<close>.
\<close>

record 'v FixedOrScalableQuantity =
  Quantity :: 'v
  Scale :: ScaleID

type_synonym 'a quantity = "'a word FixedOrScalableQuantity"
type_synonym ElementCount = "32 quantity"
type_synonym TypeSize = "64 quantity"

text \<open>\<^verbatim>\<open>LeafTy::get(Quantity, Scale)\<close> and the \<^verbatim>\<open>bool Scalable\<close> constructor.\<close>

definition get :: "'a::len word \<Rightarrow> ScaleID \<Rightarrow> 'a quantity" where
  "get q s = \<lparr>Quantity = q, Scale = s\<rparr>"

definition get_bool :: "'a::len word \<Rightarrow> bool \<Rightarrow> 'a quantity" where
  "get_bool q Scalable = \<lparr>Quantity = q, Scale = (if Scalable then Scale_V else Scale_None)\<rparr>"

definition isZero :: "'a::len quantity \<Rightarrow> bool" where
  "isZero q \<longleftrightarrow> Quantity q = 0"

definition isNonZero :: "'a::len quantity \<Rightarrow> bool" where
  "isNonZero q \<longleftrightarrow> Quantity q \<noteq> 0"

definition getKnownMinValue :: "'a::len quantity \<Rightarrow> 'a word" where
  "getKnownMinValue q = Quantity q"

definition getScale :: "'a::len quantity \<Rightarrow> ScaleID" where
  "getScale q = Scale q"

definition isScalable :: "'a::len quantity \<Rightarrow> bool" where
  "isScalable q \<longleftrightarrow> Scale q \<noteq> Scale_None"

definition isScalableV :: "'a::len quantity \<Rightarrow> bool" where
  "isScalableV q \<longleftrightarrow> ScaleID_code (Scale q) AND ScaleID_code Scale_V = ScaleID_code Scale_V"

definition isScalableM :: "'a::len quantity \<Rightarrow> bool" where
  "isScalableM q \<longleftrightarrow> ScaleID_code (Scale q) AND ScaleID_code Scale_M = ScaleID_code Scale_M"

definition isScalableN :: "'a::len quantity \<Rightarrow> bool" where
  "isScalableN q \<longleftrightarrow> ScaleID_code (Scale q) AND ScaleID_code Scale_N = ScaleID_code Scale_N"

definition isScalableMN :: "'a::len quantity \<Rightarrow> bool" where
  "isScalableMN q \<longleftrightarrow> isScalableM q \<and> isScalableN q"

subsection \<open>Arithmetic\<close>

text \<open>
  \<^verbatim>\<open>operator+=\<close> and \<^verbatim>\<open>operator-=\<close>: the assertion, then the magnitude, then the tag of
  the right operand unless that operand is zero. \<^verbatim>\<open>operator+\<close> and \<^verbatim>\<open>operator-\<close> apply
  them to a copy of the left operand, so the two operands never alias.
\<close>

definition plus_assign :: "'a::len quantity \<Rightarrow> 'a quantity \<Rightarrow> error + 'a quantity" where
  "plus_assign LHS RHS =
     (if Quantity LHS = 0 \<or> Quantity RHS = 0 \<or> Scale LHS = Scale RHS
      then Inr \<lparr>Quantity = Quantity LHS + Quantity RHS,
                Scale = (if \<not> isZero RHS then Scale RHS else Scale LHS)\<rparr>
      else Inl Incompatible_types)"

definition minus_assign :: "'a::len quantity \<Rightarrow> 'a quantity \<Rightarrow> error + 'a quantity" where
  "minus_assign LHS RHS =
     (if Quantity LHS = 0 \<or> Quantity RHS = 0 \<or> Scale LHS = Scale RHS
      then Inr \<lparr>Quantity = Quantity LHS - Quantity RHS,
                Scale = (if \<not> isZero RHS then Scale RHS else Scale LHS)\<rparr>
      else Inl Incompatible_types)"

definition q_plus :: "'a::len quantity \<Rightarrow> 'a quantity \<Rightarrow> error + 'a quantity" where
  "q_plus LHS RHS = plus_assign LHS RHS"

definition q_minus :: "'a::len quantity \<Rightarrow> 'a quantity \<Rightarrow> error + 'a quantity" where
  "q_minus LHS RHS = minus_assign LHS RHS"

text \<open>\<^verbatim>\<open>operator==\<close>: magnitude and tag.\<close>

definition q_eq :: "'a::len quantity \<Rightarrow> 'a quantity \<Rightarrow> bool" where
  "q_eq LHS RHS \<longleftrightarrow> Quantity LHS = Quantity RHS \<and> Scale LHS = Scale RHS"

text \<open>
  \<^verbatim>\<open>(a + b) - b\<close>: the subtraction runs only when the addition returned, and its own
  assertion is checked on the sum.
\<close>

definition plus_then_minus :: "'a::len quantity \<Rightarrow> 'a quantity \<Rightarrow> error + 'a quantity" where
  "plus_then_minus a b = (case q_plus a b of Inl e \<Rightarrow> Inl e | Inr c \<Rightarrow> q_minus c b)"

text \<open>The operands the contract of the arithmetic operators admits.\<close>

definition compatible :: "'a::len quantity \<Rightarrow> 'a quantity \<Rightarrow> bool" where
  "compatible a b \<longleftrightarrow> Quantity a = 0 \<or> Quantity b = 0 \<or> Scale a = Scale b"

subsection \<open>getFixedValue\<close>

definition getFixedValue :: "'a::len quantity \<Rightarrow> error + 'a word" where
  "getFixedValue q =
     (if \<not> isScalable q \<or> isZero q then Inr (getKnownMinValue q)
      else Inl Fixed_request_on_scalable)"

subsection \<open>Ordering\<close>

definition isKnownLT :: "'a::len quantity \<Rightarrow> 'a quantity \<Rightarrow> bool" where
  "isKnownLT LHS RHS =
     (if \<not> isScalable LHS \<or> Scale RHS = Scale LHS
      then getKnownMinValue LHS < getKnownMinValue RHS else False)"

definition isKnownGT :: "'a::len quantity \<Rightarrow> 'a quantity \<Rightarrow> bool" where
  "isKnownGT LHS RHS =
     (if isScalable LHS \<or> Scale RHS = Scale LHS
      then getKnownMinValue LHS > getKnownMinValue RHS else False)"

definition isKnownLE :: "'a::len quantity \<Rightarrow> 'a quantity \<Rightarrow> bool" where
  "isKnownLE LHS RHS =
     (if \<not> isScalable LHS \<or> Scale RHS = Scale LHS
      then getKnownMinValue LHS \<le> getKnownMinValue RHS else False)"

definition isKnownGE :: "'a::len quantity \<Rightarrow> 'a quantity \<Rightarrow> bool" where
  "isKnownGE LHS RHS =
     (if \<not> isScalable LHS \<or> Scale RHS = Scale LHS
      then getKnownMinValue LHS \<ge> getKnownMinValue RHS else False)"

subsection \<open>Coefficient division\<close>

text \<open>
  \<^verbatim>\<open>/\<close> and \<^verbatim>\<open>%\<close> on an unsigned type are undefined for a zero divisor; the source has
  no check, so the model returns \<open>Division_by_zero\<close> where the operator is evaluated
  with one. The \<^verbatim>\<open>&&\<close> of \<^verbatim>\<open>hasKnownScalarFactor\<close> evaluates its right operand only when
  the two tags are equal.
\<close>

definition divideCoefficientBy :: "'a::len quantity \<Rightarrow> 'a word \<Rightarrow> error + 'a quantity" where
  "divideCoefficientBy q RHS =
     (if RHS = 0 then Inl Division_by_zero
      else Inr (get (getKnownMinValue q div RHS) (getScale q)))"

definition hasKnownScalarFactor :: "'a::len quantity \<Rightarrow> 'a quantity \<Rightarrow> error + bool" where
  "hasKnownScalarFactor q RHS =
     (if getScale q = getScale RHS
      then (if getKnownMinValue RHS = 0 then Inl Division_by_zero
            else Inr (getKnownMinValue q mod getKnownMinValue RHS = 0))
      else Inr False)"

section \<open>ElementCount and TypeSize (TypeSize.h)\<close>

definition ElementCount_getFixed :: "32 word \<Rightarrow> ElementCount" where
  "ElementCount_getFixed MinVal = get_bool MinVal False"

definition ElementCount_getScalable :: "32 word \<Rightarrow> ElementCount" where
  "ElementCount_getScalable MinVal = get_bool MinVal True"

definition ElementCount_get :: "32 word \<Rightarrow> ScaleID \<Rightarrow> ElementCount" where
  "ElementCount_get MinVal S = get MinVal S"

definition isScalar :: "ElementCount \<Rightarrow> bool" where
  "isScalar c \<longleftrightarrow> \<not> isScalable c \<and> getKnownMinValue c = 1"

definition isVector :: "ElementCount \<Rightarrow> bool" where
  "isVector c \<longleftrightarrow> (isScalableV c \<and> getKnownMinValue c \<noteq> 0) \<or> getKnownMinValue c > 1"

definition TypeSize_getFixed :: "64 word \<Rightarrow> TypeSize" where
  "TypeSize_getFixed ExactSize = get_bool ExactSize False"

definition TypeSize_getScalable :: "64 word \<Rightarrow> TypeSize" where
  "TypeSize_getScalable MinimumSize = get_bool MinimumSize True"

definition TypeSize_get :: "64 word \<Rightarrow> ScaleID \<Rightarrow> TypeSize" where
  "TypeSize_get q S = get q S"

text \<open>
  \<^verbatim>\<open>alignTo(TypeSize Size, uint64_t Align)\<close>: the assertion, then
  \<^verbatim>\<open>(Size.getKnownMinValue() + Align - 1) / Align * Align\<close> in \<^verbatim>\<open>uint64_t\<close>.
\<close>

definition alignTo :: "TypeSize \<Rightarrow> 64 word \<Rightarrow> error + TypeSize" where
  "alignTo Size Align =
     (if Align = 0 then Inl Align_must_be_non_zero
      else Inr (TypeSize_get ((getKnownMinValue Size + Align - 1) div Align * Align)
                             (getScale Size)))"

text \<open>\<^verbatim>\<open>alignTo(alignTo(x, n), n)\<close>.\<close>

definition alignTo_twice :: "TypeSize \<Rightarrow> 64 word \<Rightarrow> error + TypeSize" where
  "alignTo_twice x n = (case alignTo x n of Inl e \<Rightarrow> Inl e | Inr y \<Rightarrow> alignTo y n)"

section \<open>Machine value types (ValueTypes.cpp)\<close>

subsection \<open>The structural type graph\<close>

text \<open>
  The structural types are owned by a collaborator (\<^verbatim>\<open>llvm/IR/Type.h\<close>). A type is
  modelled by its \<^verbatim>\<open>TypeID\<close> and the attributes the code reads from it: the bit width of
  an integer, the name of a target extension type, the address space of a pointer, the
  element type and the \<^verbatim>\<open>unsigned\<close> counts of a vector or matrix. The kinds after
  \<open>MetadataTy\<close> stand for the type identifiers that no \<^verbatim>\<open>case\<close> of this file names.
\<close>

datatype Type =
    VoidTy
  | IntegerTy "32 word"
  | BF8Ty
  | HF8Ty
  | HalfTy
  | BFloatTy
  | FloatTy
  | DoubleTy
  | X86_FP80Ty
  | X86_MMXTy
  | TargetExtTy string
  | X86_AMXTy
  | FP128Ty
  | PPC_FP128Ty
  | PointerTy "32 word"
  | FixedVectorTy Type "32 word"
  | ScalableVectorTy Type "32 word"
  | ScalableMatrixTy Type "32 word" "32 word" bool
  | MetadataTy
  | LabelTy
  | TokenTy
  | FunctionTy
  | StructTy
  | ArrayTy

text \<open>
  The two factories of \<^verbatim>\<open>LLVMContext\<close> whose result this file does not determine: the
  WebAssembly reference types. They are fields of the context that is passed along.
\<close>

record LLVMContext =
  getWasm_ExternrefTy :: Type
  getWasm_FuncrefTy :: Type

text \<open>\<^verbatim>\<open>VectorType::get(ElementType, EC)\<close>: a scalable or a fixed vector, by the tag of the count.\<close>

definition VectorType_get :: "Type \<Rightarrow> ElementCount \<Rightarrow> Type" where
  "VectorType_get ElementType EC =
     (if isScalable EC then ScalableVectorTy ElementType (getKnownMinValue EC)
      else FixedVectorTy ElementType (getKnownMinValue EC))"

subsection \<open>The closed enumeration\<close>

text \<open>
  \<^verbatim>\<open>MVT::SimpleValueType\<close> is generated from a table that is not part of these sources,
  so the enumeration itself is not known here: the constructors below are the
  enumerators that this file names. A flat enumeration of that size is written by the
  grammar of its names: \<^verbatim>\<open>v4i32\<close> is \<open>mvt_v 4 i32\<close>, \<^verbatim>\<open>nxv2f64\<close> is \<open>mvt_nxv 2 f64\<close>,
  \<^verbatim>\<open>m1x2xi8\<close> is \<open>mvt_m 1 2 i8\<close> and \<^verbatim>\<open>mx1xnx2xi8\<close> is \<open>mvt_mx 1 2 i8\<close>. A value of the
  last four forms that the file does not name (\<open>mvt_v 7 Glue\<close>) stands for no enumerator.
\<close>

datatype SimpleValueType =
    INVALID_SIMPLE_VALUE_TYPE
  | Other | Glue | Untyped | iPTR | spirvbuiltin
  | isVoid | i1 | i2 | i4 | i8 | i16 | i32 | i64 | i128
  | f16 | bf16 | bf8 | hf8 | f32 | f64 | f80 | f128 | ppcf128
  | x86mmx | aarch64svcount | x86amx | i64x8 | externref | funcref | Metadata
  | mvt_v nat SimpleValueType
  | mvt_nxv nat SimpleValueType
  | mvt_m nat nat SimpleValueType
  | mvt_mx nat nat SimpleValueType

subsection \<open>The table of EVT::getTypeForEVT\<close>

text \<open>
  The \<^verbatim>\<open>case\<close> labels of the \<^verbatim>\<open>switch\<close> in \<^verbatim>\<open>EVT::getTypeForEVT\<close> with the type each one
  returns, in the order of the source, with \<^verbatim>\<open>FP8_DATATYPES\<close> and \<^verbatim>\<open>SCALABLE_MATRIX\<close>
  defined (\<^verbatim>\<open>MVT::getVT\<close> closes its body only under \<^verbatim>\<open>SCALABLE_MATRIX\<close>). The two
  labels whose type comes from the context, \<^verbatim>\<open>externref\<close> and \<^verbatim>\<open>funcref\<close>, are looked up
  first in \<open>getTypeForEVT_switch\<close>; the labels of a \<^verbatim>\<open>switch\<close> are disjoint, so the
  order has no effect.
\<close>

definition table_scalars :: "(SimpleValueType \<times> Type) list" where
  "table_scalars =
    [(isVoid, VoidTy),
     (i1, IntegerTy 1),
     (i2, IntegerTy 2),
     (i4, IntegerTy 4),
     (i8, IntegerTy 8),
     (i16, IntegerTy 16),
     (i32, IntegerTy 32),
     (i64, IntegerTy 64),
     (i128, IntegerTy 128),
     (f16, HalfTy),
     (bf16, BFloatTy),
     (bf8, BF8Ty),
     (hf8, HF8Ty),
     (f32, FloatTy),
     (f64, DoubleTy),
     (f80, X86_FP80Ty),
     (f128, FP128Ty),
     (ppcf128, PPC_FP128Ty),
     (x86mmx, X86_MMXTy),
     (aarch64svcount, TargetExtTy ''aarch64.svcount''),
     (x86amx, X86_AMXTy),
     (i64x8, IntegerTy 512)]"

definition table_fixed_vectors :: "(SimpleValueType \<times> Type) list" where
  "table_fixed_vectors =
    [(mvt_v 1 i1, FixedVectorTy (IntegerTy 1) 1),
     (mvt_v 2 i1, FixedVectorTy (IntegerTy 1) 2),
     (mvt_v 4 i1, FixedVectorTy (IntegerTy 1) 4),
     (mvt_v 8 i1, FixedVectorTy (IntegerTy 1) 8),
     (mvt_v 16 i1, FixedVectorTy (IntegerTy 1) 16),
     (mvt_v 32 i1, FixedVectorTy (IntegerTy 1) 32),
     (mvt_v 64 i1, FixedVectorTy (IntegerTy 1) 64),
     (mvt_v 128 i1, FixedVectorTy (IntegerTy 1) 128),
     (mvt_v 256 i1, FixedVectorTy (IntegerTy 1) 256),
     (mvt_v 512 i1, FixedVectorTy (IntegerTy 1) 512),
     (mvt_v 1024 i1, FixedVectorTy (IntegerTy 1) 1024),
     (mvt_v 2048 i1, FixedVectorTy (IntegerTy 1) 2048),
     (mvt_v 128 i2, FixedVectorTy (IntegerTy 2) 128),
     (mvt_v 256 i2, FixedVectorTy (IntegerTy 2) 256),
     (mvt_v 64 i4, FixedVectorTy (IntegerTy 4) 64),
     (mvt_v 128 i4, FixedVectorTy (IntegerTy 4) 128),
     (mvt_v 1 i8, FixedVectorTy (IntegerTy 8) 1),
     (mvt_v 2 i8, FixedVectorTy (IntegerTy 8) 2),
     (mvt_v 4 i8, FixedVectorTy (IntegerTy 8) 4),
     (mvt_v 8 i8, FixedVectorTy (IntegerTy 8) 8),
     (mvt_v 16 i8, FixedVectorTy (IntegerTy 8) 16),
     (mvt_v 32 i8, FixedVectorTy (IntegerTy 8) 32),
     (mvt_v 64 i8, FixedVectorTy (IntegerTy 8) 64),
     (mvt_v 128 i8, FixedVectorTy (IntegerTy 8) 128),
     (mvt_v 256 i8, FixedVectorTy (IntegerTy 8) 256),
     (mvt_v 512 i8, FixedVectorTy (IntegerTy 8) 512),
     (mvt_v 1024 i8, FixedVectorTy (IntegerTy 8) 1024),
     (mvt_v 1 i16, FixedVectorTy (IntegerTy 16) 1),
     (mvt_v 2 i16, FixedVectorTy (IntegerTy 16) 2),
     (mvt_v 3 i16, FixedVectorTy (IntegerTy 16) 3),
     (mvt_v 4 i16, FixedVectorTy (IntegerTy 16) 4),
     (mvt_v 8 i16, FixedVectorTy (IntegerTy 16) 8),
     (mvt_v 16 i16, FixedVectorTy (IntegerTy 16) 16),
     (mvt_v 32 i16, FixedVectorTy (IntegerTy 16) 32),
     (mvt_v 64 i16, FixedVectorTy (IntegerTy 16) 64),
     (mvt_v 128 i16, FixedVectorTy (IntegerTy 16) 128),
     (mvt_v 256 i16, FixedVectorTy (IntegerTy 16) 256),
     (mvt_v 512 i16, FixedVectorTy (IntegerTy 16) 512),
     (mvt_v 1 i32, FixedVectorTy (IntegerTy 32) 1),
     (mvt_v 2 i32, FixedVectorTy (IntegerTy 32) 2),
     (mvt_v 3 i32, FixedVectorTy (IntegerTy 32) 3),
     (mvt_v 4 i32, FixedVectorTy (IntegerTy 32) 4),
     (mvt_v 5 i32, FixedVectorTy (IntegerTy 32) 5),
     (mvt_v 6 i32, FixedVectorTy (IntegerTy 32) 6),
     (mvt_v 7 i32, FixedVectorTy (IntegerTy 32) 7),
     (mvt_v 8 i32, FixedVectorTy (IntegerTy 32) 8),
     (mvt_v 9 i32, FixedVectorTy (IntegerTy 32) 9),
     (mvt_v 10 i32, FixedVectorTy (IntegerTy 32) 10),
     (mvt_v 11 i32, FixedVectorTy (IntegerTy 32) 11),
     (mvt_v 12 i32, FixedVectorTy (IntegerTy 32) 12),
     (mvt_v 16 i32, FixedVectorTy (IntegerTy 32) 16),
     (mvt_v 32 i32, FixedVectorTy (IntegerTy 32) 32),
     (mvt_v 64 i32, FixedVectorTy (IntegerTy 32) 64),
     (mvt_v 128 i32, FixedVectorTy (IntegerTy 32) 128),
     (mvt_v 256 i32, FixedVectorTy (IntegerTy 32) 256),
     (mvt_v 512 i32, FixedVectorTy (IntegerTy 32) 512),
     (mvt_v 1024 i32, FixedVectorTy (IntegerTy 32) 1024),
     (mvt_v 2048 i32, FixedVectorTy (IntegerTy 32) 2048),
     (mvt_v 1 i64, FixedVectorTy (IntegerTy 64) 1),
     (mvt_v 2 i64, FixedVectorTy (IntegerTy 64) 2),
     (mvt_v 3 i64, FixedVectorTy (IntegerTy 64) 3),
     (mvt_v 4 i64, FixedVectorTy (IntegerTy 64) 4),
     (mvt_v 8 i64, FixedVectorTy (IntegerTy 64) 8),
     (mvt_v 16 i64, FixedVectorTy (IntegerTy 64) 16),
     (mvt_v 32 i64, FixedVectorTy (IntegerTy 64) 32),
     (mvt_v 64 i64, FixedVectorTy (IntegerTy 64) 64),
     (mvt_v 128 i64, FixedVectorTy (IntegerTy 64) 128),
     (mvt_v 256 i64, FixedVectorTy (IntegerTy 64) 256),
     (mvt_v 1 i128, FixedVectorTy (IntegerTy 128) 1),
     (mvt_v 1 f16, FixedVectorTy HalfTy 1),
     (mvt_v 2 f16, FixedVectorTy HalfTy 2),
     (mvt_v 3 f16, FixedVectorTy HalfTy 3),
     (mvt_v 4 f16, FixedVectorTy HalfTy 4),
     (mvt_v 8 f16, FixedVectorTy HalfTy 8),
     (mvt_v 16 f16, FixedVectorTy HalfTy 16),
     (mvt_v 32 f16, FixedVectorTy HalfTy 32),
     (mvt_v 64 f16, FixedVectorTy HalfTy 64),
     (mvt_v 128 f16, FixedVectorTy HalfTy 128),
     (mvt_v 256 f16, FixedVectorTy HalfTy 256),
     (mvt_v 512 f16, FixedVectorTy HalfTy 512),
     (mvt_v 2 bf16, FixedVectorTy BFloatTy 2),
     (mvt_v 3 bf16, FixedVectorTy BFloatTy 3),
     (mvt_v 4 bf16, FixedVectorTy BFloatTy 4),
     (mvt_v 8 bf16, FixedVectorTy BFloatTy 8),
     (mvt_v 16 bf16, FixedVectorTy BFloatTy 16),
     (mvt_v 32 bf16, FixedVectorTy BFloatTy 32),
     (mvt_v 64 bf16, FixedVectorTy BFloatTy 64),
     (mvt_v 128 bf16, FixedVectorTy BFloatTy 128),
     (mvt_v 1 f32, FixedVectorTy FloatTy 1),
     (mvt_v 2 f32, FixedVectorTy FloatTy 2),
     (mvt_v 3 f32, FixedVectorTy FloatTy 3),
     (mvt_v 4 f32, FixedVectorTy FloatTy 4),
     (mvt_v 5 f32, FixedVectorTy FloatTy 5),
     (mvt_v 6 f32, FixedVectorTy FloatTy 6),
     (mvt_v 7 f32, FixedVectorTy FloatTy 7),
     (mvt_v 8 f32, FixedVectorTy FloatTy 8),
     (mvt_v 9 f32, FixedVectorTy FloatTy 9),
     (mvt_v 10 f32, FixedVectorTy FloatTy 10),
     (mvt_v 11 f32, FixedVectorTy FloatTy 11),
     (mvt_v 12 f32, FixedVectorTy FloatTy 12),
     (mvt_v 16 f32, FixedVectorTy FloatTy 16),
     (mvt_v 32 f32, FixedVectorTy FloatTy 32),
     (mvt_v 64 f32, FixedVectorTy FloatTy 64),
     (mvt_v 128 f32, FixedVectorTy FloatTy 128),
     (mvt_v 256 f32, FixedVectorTy FloatTy 256),
     (mvt_v 512 f32, FixedVectorTy FloatTy 512),
     (mvt_v 1024 f32, FixedVectorTy FloatTy 1024),
     (mvt_v 2048 f32, FixedVectorTy FloatTy 2048),
     (mvt_v 1 f64, FixedVectorTy DoubleTy 1),
     (mvt_v 2 f64, FixedVectorTy DoubleTy 2),
     (mvt_v 3 f64, FixedVectorTy DoubleTy 3),
     (mvt_v 4 f64, FixedVectorTy DoubleTy 4),
     (mvt_v 8 f64, FixedVectorTy DoubleTy 8),
     (mvt_v 16 f64, FixedVectorTy DoubleTy 16),
     (mvt_v 32 f64, FixedVectorTy DoubleTy 32),
     (mvt_v 64 f64, FixedVectorTy DoubleTy 64),
     (mvt_v 128 f64, FixedVectorTy DoubleTy 128),
     (mvt_v 256 f64, FixedVectorTy DoubleTy 256)]"

definition table_scalable_vectors :: "(SimpleValueType \<times> Type) list" where
  "table_scalable_vectors =
    [(mvt_nxv 1 i1, ScalableVectorTy (IntegerTy 1) 1),
     (mvt_nxv 2 i1, ScalableVectorTy (IntegerTy 1) 2),
     (mvt_nxv 4 i1, ScalableVectorTy (IntegerTy 1) 4),
     (mvt_nxv 8 i1, ScalableVectorTy (IntegerTy 1) 8),
     (mvt_nxv 16 i1, ScalableVectorTy (IntegerTy 1) 16),
     (mvt_nxv 32 i1, ScalableVectorTy (IntegerTy 1) 32),
     (mvt_nxv 64 i1, ScalableVectorTy (IntegerTy 1) 64),
     (mvt_nxv 1 i8, ScalableVectorTy (IntegerTy 8) 1),
     (mvt_nxv 2 i8, ScalableVectorTy (IntegerTy 8) 2),
     (mvt_nxv 4 i8, ScalableVectorTy (IntegerTy 8) 4),
     (mvt_nxv 8 i8, ScalableVectorTy (IntegerTy 8) 8),
     (mvt_nxv 16 i8, ScalableVectorTy (IntegerTy 8) 16),
     (mvt_nxv 32 i8, ScalableVectorTy (IntegerTy 8) 32),
     (mvt_nxv 64 i8, ScalableVectorTy (IntegerTy 8) 64),
     (mvt_nxv 1 i16, ScalableVectorTy (IntegerTy 16) 1),
     (mvt_nxv 2 i16, ScalableVectorTy (IntegerTy 16) 2),
     (mvt_nxv 4 i16, ScalableVectorTy (IntegerTy 16) 4),
     (mvt_nxv 8 i16, ScalableVectorTy (IntegerTy 16) 8),
     (mvt_nxv 16 i16, ScalableVectorTy (IntegerTy 16) 16),
     (mvt_nxv 32 i16, ScalableVectorTy (IntegerTy 16) 32),
     (mvt_nxv 1 i32, ScalableVectorTy (IntegerTy 32) 1),
     (mvt_nxv 2 i32, ScalableVectorTy (IntegerTy 32) 2),
     (mvt_nxv 4 i32, ScalableVectorTy (IntegerTy 32) 4),
     (mvt_nxv 8 i32, ScalableVectorTy (IntegerTy 32) 8),
     (mvt_nxv 16 i32, ScalableVectorTy (IntegerTy 32) 16),
     (mvt_nxv 32 i32, ScalableVectorTy (IntegerTy 32) 32),
     (mvt_nxv 1 i64, ScalableVectorTy (IntegerTy 64) 1),
     (mvt_nxv 2 i64, ScalableVectorTy (IntegerTy 64) 2),
     (mvt_nxv 4 i64, ScalableVectorTy (IntegerTy 64) 4),
     (mvt_nxv 8 i64, ScalableVectorTy (IntegerTy 64) 8),
     (mvt_nxv 16 i64, ScalableVectorTy (IntegerTy 64) 16),
     (mvt_nxv 32 i64, ScalableVectorTy (IntegerTy 64) 32),
     (mvt_nxv 1 f16, ScalableVectorTy HalfTy 1),
     (mvt_nxv 2 f16, ScalableVectorTy HalfTy 2),
     (mvt_nxv 4 f16, ScalableVectorTy HalfTy 4),
     (mvt_nxv 8 f16, ScalableVectorTy HalfTy 8),
     (mvt_nxv 16 f16, ScalableVectorTy HalfTy 16),
     (mvt_nxv 32 f16, ScalableVectorTy HalfTy 32),
     (mvt_nxv 1 bf16, ScalableVectorTy BFloatTy 1),
     (mvt_nxv 2 bf16, ScalableVectorTy BFloatTy 2),
     (mvt_nxv 4 bf16, ScalableVectorTy BFloatTy 4),
     (mvt_nxv 8 bf16, ScalableVectorTy BFloatTy 8),
     (mvt_nxv 16 bf16, ScalableVectorTy BFloatTy 16),
     (mvt_nxv 32 bf16, ScalableVectorTy BFloatTy 32),
     (mvt_nxv 1 f32, ScalableVectorTy FloatTy 1),
     (mvt_nxv 2 f32, ScalableVectorTy FloatTy 2),
     (mvt_nxv 4 f32, ScalableVectorTy FloatTy 4),
     (mvt_nxv 8 f32, ScalableVectorTy FloatTy 8),
     (mvt_nxv 16 f32, ScalableVectorTy FloatTy 16),
     (mvt_nxv 1 f64, ScalableVectorTy DoubleTy 1),
     (mvt_nxv 2 f64, ScalableVectorTy DoubleTy 2),
     (mvt_nxv 4 f64, ScalableVectorTy DoubleTy 4),
     (mvt_nxv 8 f64, ScalableVectorTy DoubleTy 8),
     (mvt_nxv 1 bf8, ScalableVectorTy BF8Ty 1),
     (mvt_nxv 2 bf8, ScalableVectorTy BF8Ty 2),
     (mvt_nxv 4 bf8, ScalableVectorTy BF8Ty 4),
     (mvt_nxv 8 bf8, ScalableVectorTy BF8Ty 8),
     (mvt_nxv 16 bf8, ScalableVectorTy BF8Ty 16),
     (mvt_nxv 32 bf8, ScalableVectorTy BF8Ty 32),
     (mvt_nxv 64 bf8, ScalableVectorTy BF8Ty 64),
     (mvt_nxv 1 hf8, ScalableVectorTy HF8Ty 1),
     (mvt_nxv 2 hf8, ScalableVectorTy HF8Ty 2),
     (mvt_nxv 4 hf8, ScalableVectorTy HF8Ty 4),
     (mvt_nxv 8 hf8, ScalableVectorTy HF8Ty 8),
     (mvt_nxv 16 hf8, ScalableVectorTy HF8Ty 16),
     (mvt_nxv 32 hf8, ScalableVectorTy HF8Ty 32),
     (mvt_nxv 64 hf8, ScalableVectorTy HF8Ty 64)]"

definition table_matrices :: "(SimpleValueType \<times> Type) list" where
  "table_matrices =
    [(mvt_m 1 1 i8, ScalableMatrixTy (IntegerTy 8) 1 1 False),
     (mvt_m 1 2 i8, ScalableMatrixTy (IntegerTy 8) 1 2 False),
     (mvt_m 1 4 i8, ScalableMatrixTy (IntegerTy 8) 1 4 False),
     (mvt_m 1 8 i8, ScalableMatrixTy (IntegerTy 8) 1 8 False),
     (mvt_m 1 16 i8, ScalableMatrixTy (IntegerTy 8) 1 16 False),
     (mvt_m 1 32 i8, ScalableMatrixTy (IntegerTy 8) 1 32 False),
     (mvt_m 1 64 i8, ScalableMatrixTy (IntegerTy 8) 1 64 False),
     (mvt_m 1 1 i16, ScalableMatrixTy (IntegerTy 16) 1 1 False),
     (mvt_m 1 2 i16, ScalableMatrixTy (IntegerTy 16) 1 2 False),
     (mvt_m 1 4 i16, ScalableMatrixTy (IntegerTy 16) 1 4 False),
     (mvt_m 1 8 i16, ScalableMatrixTy (IntegerTy 16) 1 8 False),
     (mvt_m 1 16 i16, ScalableMatrixTy (IntegerTy 16) 1 16 False),
     (mvt_m 1 32 i16, ScalableMatrixTy (IntegerTy 16) 1 32 False),
     (mvt_m 1 1 i32, ScalableMatrixTy (IntegerTy 32) 1 1 False),
     (mvt_m 1 2 i32, ScalableMatrixTy (IntegerTy 32) 1 2 False),
     (mvt_m 1 4 i32, ScalableMatrixTy (IntegerTy 32) 1 4 False),
     (mvt_m 1 8 i32, ScalableMatrixTy (IntegerTy 32) 1 8 False),
     (mvt_m 1 16 i32, ScalableMatrixTy (IntegerTy 32) 1 16 False),
     (mvt_m 1 1 i64, ScalableMatrixTy (IntegerTy 64) 1 1 False),
     (mvt_m 1 2 i64, ScalableMatrixTy (IntegerTy 64) 1 2 False),
     (mvt_m 1 4 i64, ScalableMatrixTy (IntegerTy 64) 1 4 False),
     (mvt_m 1 8 i64, ScalableMatrixTy (IntegerTy 64) 1 8 False),
     (mvt_m 1 1 bf8, ScalableMatrixTy BF8Ty 1 1 False),
     (mvt_m 1 2 bf8, ScalableMatrixTy BF8Ty 1 2 False),
     (mvt_m 1 4 bf8, ScalableMatrixTy BF8Ty 1 4 False),
     (mvt_m 1 8 bf8, ScalableMatrixTy BF8Ty 1 8 False),
     (mvt_m 1 16 bf8, ScalableMatrixTy BF8Ty 1 16 False),
     (mvt_m 1 32 bf8, ScalableMatrixTy BF8Ty 1 32 False),
     (mvt_m 1 64 bf8, ScalableMatrixTy BF8Ty 1 64 False),
     (mvt_m 1 1 hf8, ScalableMatrixTy HF8Ty 1 1 False),
     (mvt_m 1 2 hf8, ScalableMatrixTy HF8Ty 1 2 False),
     (mvt_m 1 4 hf8, ScalableMatrixTy HF8Ty 1 4 False),
     (mvt_m 1 8 hf8, ScalableMatrixTy HF8Ty 1 8 False),
     (mvt_m 1 16 hf8, ScalableMatrixTy HF8Ty 1 16 False),
     (mvt_m 1 32 hf8, ScalableMatrixTy HF8Ty 1 32 False),
     (mvt_m 1 64 hf8, ScalableMatrixTy HF8Ty 1 64 False),
     (mvt_m 1 1 bf16, ScalableMatrixTy BFloatTy 1 1 False),
     (mvt_m 1 2 bf16, ScalableMatrixTy BFloatTy 1 2 False),
     (mvt_m 1 4 bf16, ScalableMatrixTy BFloatTy 1 4 False),
     (mvt_m 1 8 bf16, ScalableMatrixTy BFloatTy 1 8 False),
     (mvt_m 1 16 bf16, ScalableMatrixTy BFloatTy 1 16 False),
     (mvt_m 1 32 bf16, ScalableMatrixTy BFloatTy 1 32 False),
     (mvt_m 1 1 f16, ScalableMatrixTy HalfTy 1 1 False),
     (mvt_m 1 2 f16, ScalableMatrixTy HalfTy 1 2 False),
     (mvt_m 1 4 f16, ScalableMatrixTy HalfTy 1 4 False),
     (mvt_m 1 8 f16, ScalableMatrixTy HalfTy 1 8 False),
     (mvt_m 1 16 f16, ScalableMatrixTy HalfTy 1 16 False),
     (mvt_m 1 32 f16, ScalableMatrixTy HalfTy 1 32 False),
     (mvt_m 1 1 f32, ScalableMatrixTy FloatTy 1 1 False),
     (mvt_m 1 2 f32, ScalableMatrixTy FloatTy 1 2 False),
     (mvt_m 1 4 f32, ScalableMatrixTy FloatTy 1 4 False),
     (mvt_m 1 8 f32, ScalableMatrixTy FloatTy 1 8 False),
     (mvt_m 1 16 f32, ScalableMatrixTy FloatTy 1 16 False),
     (mvt_m 1 1 f64, ScalableMatrixTy DoubleTy 1 1 False),
     (mvt_m 1 2 f64, ScalableMatrixTy DoubleTy 1 2 False),
     (mvt_m 1 4 f64, ScalableMatrixTy DoubleTy 1 4 False),
     (mvt_m 1 8 f64, ScalableMatrixTy DoubleTy 1 8 False)]"

definition table_scalable_matrices :: "(SimpleValueType \<times> Type) list" where
  "table_scalable_matrices =
    [(mvt_mx 1 1 i8, ScalableMatrixTy (IntegerTy 8) 1 1 True),
     (mvt_mx 1 2 i8, ScalableMatrixTy (IntegerTy 8) 1 2 True),
     (mvt_mx 1 4 i8, ScalableMatrixTy (IntegerTy 8) 1 4 True),
     (mvt_mx 1 8 i8, ScalableMatrixTy (IntegerTy 8) 1 8 True),
     (mvt_mx 1 16 i8, ScalableMatrixTy (IntegerTy 8) 1 16 True),
     (mvt_mx 1 32 i8, ScalableMatrixTy (IntegerTy 8) 1 32 True),
     (mvt_mx 1 64 i8, ScalableMatrixTy (IntegerTy 8) 1 64 True),
     (mvt_mx 1 1 i16, ScalableMatrixTy (IntegerTy 16) 1 1 True),
     (mvt_mx 1 2 i16, ScalableMatrixTy (IntegerTy 16) 1 2 True),
     (mvt_mx 1 4 i16, ScalableMatrixTy (IntegerTy 16) 1 4 True),
     (mvt_mx 1 8 i16, ScalableMatrixTy (IntegerTy 16) 1 8 True),
     (mvt_mx 1 16 i16, ScalableMatrixTy (IntegerTy 16) 1 16 True),
     (mvt_mx 1 32 i16, ScalableMatrixTy (IntegerTy 16) 1 32 True),
     (mvt_mx 1 1 i32, ScalableMatrixTy (IntegerTy 32) 1 1 True),
     (mvt_mx 1 2 i32, ScalableMatrixTy (IntegerTy 32) 1 2 True),
     (mvt_mx 1 4 i32, ScalableMatrixTy (IntegerTy 32) 1 4 True),
     (mvt_mx 1 8 i32, ScalableMatrixTy (IntegerTy 32) 1 8 True),
     (mvt_mx 1 16 i32, ScalableMatrixTy (IntegerTy 32) 1 16 True),
     (mvt_mx 1 1 i64, ScalableMatrixTy (IntegerTy 64) 1 1 True),
     (mvt_mx 1 2 i64, ScalableMatrixTy (IntegerTy 64) 1 2 True),
     (mvt_mx 1 4 i64, ScalableMatrixTy (IntegerTy 64) 1 4 True),
     (mvt_mx 1 8 i64, ScalableMatrixTy (IntegerTy 64) 1 8 True),
     (mvt_mx 1 1 bf8, ScalableMatrixTy BF8Ty 1 1 True),
     (mvt_mx 1 2 bf8, ScalableMatrixTy BF8Ty 1 2 True),
     (mvt_mx 1 4 bf8, ScalableMatrixTy BF8Ty 1 4 True),
     (mvt_mx 1 8 bf8, ScalableMatrixTy BF8Ty 1 8 True),
     (mvt_mx 1 16 bf8, ScalableMatrixTy BF8Ty 1 16 True),
     (mvt_mx 1 32 bf8, ScalableMatrixTy BF8Ty 1 32 True),
     (mvt_mx 1 64 bf8, ScalableMatrixTy BF8Ty 1 64 True),
     (mvt_mx 1 1 hf8, ScalableMatrixTy HF8Ty 1 1 True),
     (mvt_mx 1 2 hf8, ScalableMatrixTy HF8Ty 1 2 True),
     (mvt_mx 1 4 hf8, ScalableMatrixTy HF8Ty 1 4 True),
     (mvt_mx 1 8 hf8, ScalableMatrixTy HF8Ty 1 8 True),
     (mvt_mx 1 16 hf8, ScalableMatrixTy HF8Ty 1 16 True),
     (mvt_mx 1 32 hf8, ScalableMatrixTy HF8Ty 1 32 True),
     (mvt_mx 1 64 hf8, ScalableMatrixTy HF8Ty 1 64 True),
     (mvt_mx 1 1 bf16, ScalableMatrixTy BFloatTy 1 1 True),
     (mvt_mx 1 2 bf16, ScalableMatrixTy BFloatTy 1 2 True),
     (mvt_mx 1 4 bf16, ScalableMatrixTy BFloatTy 1 4 True),
     (mvt_mx 1 8 bf16, ScalableMatrixTy BFloatTy 1 8 True),
     (mvt_mx 1 16 bf16, ScalableMatrixTy BFloatTy 1 16 True),
     (mvt_mx 1 32 bf16, ScalableMatrixTy BFloatTy 1 32 True),
     (mvt_mx 1 1 f16, ScalableMatrixTy HalfTy 1 1 True),
     (mvt_mx 1 2 f16, ScalableMatrixTy HalfTy 1 2 True),
     (mvt_mx 1 4 f16, ScalableMatrixTy HalfTy 1 4 True),
     (mvt_mx 1 8 f16, ScalableMatrixTy HalfTy 1 8 True),
     (mvt_mx 1 16 f16, ScalableMatrixTy HalfTy 1 16 True),
     (mvt_mx 1 32 f16, ScalableMatrixTy HalfTy 1 32 True),
     (mvt_mx 1 1 f32, ScalableMatrixTy FloatTy 1 1 True),
     (mvt_mx 1 2 f32, ScalableMatrixTy FloatTy 1 2 True),
     (mvt_mx 1 4 f32, ScalableMatrixTy FloatTy 1 4 True),
     (mvt_mx 1 8 f32, ScalableMatrixTy FloatTy 1 8 True),
     (mvt_mx 1 16 f32, ScalableMatrixTy FloatTy 1 16 True),
     (mvt_mx 1 1 f64, ScalableMatrixTy DoubleTy 1 1 True),
     (mvt_mx 1 2 f64, ScalableMatrixTy DoubleTy 1 2 True),
     (mvt_mx 1 4 f64, ScalableMatrixTy DoubleTy 1 4 True),
     (mvt_mx 1 8 f64, ScalableMatrixTy DoubleTy 1 8 True)]"

definition table_metadata :: "(SimpleValueType \<times> Type) list" where
  "table_metadata = [(Metadata, MetadataTy)]"

definition getTypeForEVT_table :: "(SimpleValueType \<times> Type) list" where
  "getTypeForEVT_table =
     table_scalars @ table_fixed_vectors @ table_scalable_vectors @ table_matrices @
     table_scalable_matrices @ table_metadata"

definition getTypeForEVT_switch :: "LLVMContext \<Rightarrow> SimpleValueType \<Rightarrow> Type option" where
  "getTypeForEVT_switch Context SimpleTy =
     (if SimpleTy = externref then Some (getWasm_ExternrefTy Context)
      else if SimpleTy = funcref then Some (getWasm_FuncrefTy Context)
      else map_of getTypeForEVT_table SimpleTy)"

text \<open>The tags that have a \<^verbatim>\<open>case\<close> label in \<^verbatim>\<open>EVT::getTypeForEVT\<close>.\<close>

definition getTypeForEVT_labels :: "SimpleValueType list" where
  "getTypeForEVT_labels = externref # funcref # map fst getTypeForEVT_table"

subsection \<open>EVT\<close>

text \<open>
  \<^verbatim>\<open>class EVT { MVT V = MVT::INVALID_SIMPLE_VALUE_TYPE; Type *LLVMTy = nullptr; }\<close>.
\<close>

record EVT =
  V :: SimpleValueType
  LLVMTy :: "Type option"

definition EVT_default :: EVT where
  "EVT_default = \<lparr>V = INVALID_SIMPLE_VALUE_TYPE, LLVMTy = None\<rparr>"

text \<open>The implicit conversion \<^verbatim>\<open>EVT(MVT S)\<close>.\<close>

definition EVT_of_MVT :: "SimpleValueType \<Rightarrow> EVT" where
  "EVT_of_MVT S = \<lparr>V = S, LLVMTy = None\<rparr>"

text \<open>
  Modelled from the spec: \<^verbatim>\<open>EVT::isExtended\<close>, declared in \<^verbatim>\<open>ValueTypes.h\<close>, which is
  absent: true iff the tag is the marker of an extended type and the handle is non-null.
\<close>

definition isExtended :: "EVT \<Rightarrow> bool" where
  "isExtended VT \<longleftrightarrow> V VT = INVALID_SIMPLE_VALUE_TYPE \<and> LLVMTy VT \<noteq> None"

text \<open>
  \<^verbatim>\<open>EVT::getTypeForEVT\<close>: the \<^verbatim>\<open>default\<close> label asserts that the type is extended and
  returns the handle.
\<close>

definition getTypeForEVT :: "LLVMContext \<Rightarrow> EVT \<Rightarrow> error + Type" where
  "getTypeForEVT Context VT =
     (case getTypeForEVT_switch Context (V VT) of
        Some Ty \<Rightarrow> Inr Ty
      | None \<Rightarrow>
          (if isExtended VT
           then (case LLVMTy VT of Some Ty \<Rightarrow> Inr Ty | None \<Rightarrow> Inl Type_is_not_extended)
           else Inl Type_is_not_extended))"

subsection \<open>MVT::getVT\<close>

text \<open>
  Modelled from the spec: \<^verbatim>\<open>MVT::getIntegerVT\<close>, \<^verbatim>\<open>MVT::getVectorVT\<close> and
  \<^verbatim>\<open>MVT::getMatrixVT\<close>, defined in \<^verbatim>\<open>MachineValueType.h\<close>, which is absent. They return
  the enumerated integer tag of that bit width, and the enumerated vector or matrix tag
  of that element tag, those counts and that scalability; the invalid value when the
  enumeration has none. The vector and matrix tags known to be enumerated are the ones
  with a \<^verbatim>\<open>case\<close> label in \<^verbatim>\<open>EVT::getTypeForEVT\<close>.
\<close>

definition MVT_getIntegerVT :: "32 word \<Rightarrow> SimpleValueType" where
  "MVT_getIntegerVT BitWidth =
     (if BitWidth = 1 then i1
      else if BitWidth = 2 then i2
      else if BitWidth = 4 then i4
      else if BitWidth = 8 then i8
      else if BitWidth = 16 then i16
      else if BitWidth = 32 then i32
      else if BitWidth = 64 then i64
      else if BitWidth = 128 then i128
      else INVALID_SIMPLE_VALUE_TYPE)"

definition enumerated_or_invalid :: "SimpleValueType \<Rightarrow> SimpleValueType" where
  "enumerated_or_invalid t =
     (if t \<in> set getTypeForEVT_labels then t else INVALID_SIMPLE_VALUE_TYPE)"

definition MVT_getVectorVT :: "SimpleValueType \<Rightarrow> ElementCount \<Rightarrow> SimpleValueType" where
  "MVT_getVectorVT VT EC =
     enumerated_or_invalid
       (if isScalable EC then mvt_nxv (unat (getKnownMinValue EC)) VT
        else mvt_v (unat (getKnownMinValue EC)) VT)"

definition MVT_getMatrixVT ::
  "SimpleValueType \<Rightarrow> 32 word \<Rightarrow> 32 word \<Rightarrow> bool \<Rightarrow> SimpleValueType" where
  "MVT_getMatrixVT VT NumElts NumElts2 Scalable =
     enumerated_or_invalid
       (if Scalable then mvt_mx (unat NumElts) (unat NumElts2) VT
        else mvt_m (unat NumElts) (unat NumElts2) VT)"

text \<open>
  \<^verbatim>\<open>MVT::getVT(Type *Ty, bool HandleUnknown)\<close>: the \<^verbatim>\<open>switch\<close> on the type identifier. The
  last equation is the \<^verbatim>\<open>default\<close> label; \<^verbatim>\<open>llvm_unreachable\<close> is the error.
\<close>

fun getVT :: "Type \<Rightarrow> bool \<Rightarrow> error + SimpleValueType" where
  "getVT VoidTy HandleUnknown = Inr isVoid"
| "getVT (IntegerTy BitWidth) HandleUnknown = Inr (MVT_getIntegerVT BitWidth)"
| "getVT BF8Ty HandleUnknown = Inr bf8"
| "getVT HF8Ty HandleUnknown = Inr hf8"
| "getVT HalfTy HandleUnknown = Inr f16"
| "getVT BFloatTy HandleUnknown = Inr bf16"
| "getVT FloatTy HandleUnknown = Inr f32"
| "getVT DoubleTy HandleUnknown = Inr f64"
| "getVT X86_FP80Ty HandleUnknown = Inr f80"
| "getVT X86_MMXTy HandleUnknown = Inr x86mmx"
| "getVT (TargetExtTy Name) HandleUnknown =
     (if Name = ''aarch64.svcount'' then Inr aarch64svcount
      else if take 6 Name = ''spirv.'' then Inr spirvbuiltin
      else if HandleUnknown then Inr Other
      else Inl Unknown_type)"
| "getVT X86_AMXTy HandleUnknown = Inr x86amx"
| "getVT FP128Ty HandleUnknown = Inr f128"
| "getVT PPC_FP128Ty HandleUnknown = Inr ppcf128"
| "getVT (PointerTy AddressSpace) HandleUnknown = Inr iPTR"
| "getVT (FixedVectorTy ElementType n) HandleUnknown =
     (case getVT ElementType False of
        Inl e \<Rightarrow> Inl e
      | Inr VT \<Rightarrow> Inr (MVT_getVectorVT VT (ElementCount_getFixed n)))"
| "getVT (ScalableVectorTy ElementType n) HandleUnknown =
     (case getVT ElementType False of
        Inl e \<Rightarrow> Inl e
      | Inr VT \<Rightarrow> Inr (MVT_getVectorVT VT (ElementCount_getScalable n)))"
| "getVT (ScalableMatrixTy ElementType NumElts NumElts2 Scalable) HandleUnknown =
     (case getVT ElementType False of
        Inl e \<Rightarrow> Inl e
      | Inr VT \<Rightarrow> Inr (MVT_getMatrixVT VT NumElts NumElts2 Scalable))"
| "getVT Ty HandleUnknown = (if HandleUnknown then Inr Other else Inl Unknown_type)"

text \<open>\<^verbatim>\<open>getVT(getTypeForEVT(t), false)\<close> for a simple type \<open>t\<close>.\<close>

definition round_trip :: "LLVMContext \<Rightarrow> SimpleValueType \<Rightarrow> error + SimpleValueType" where
  "round_trip Context t =
     (case getTypeForEVT Context (EVT_of_MVT t) of
        Inl e \<Rightarrow> Inl e
      | Inr Ty \<Rightarrow> getVT Ty False)"

subsection \<open>EVT::getEVT\<close>

text \<open>
  \<^verbatim>\<open>EVT::getExtendedIntegerVT\<close>, \<^verbatim>\<open>EVT::getExtendedVectorVT\<close> and
  \<^verbatim>\<open>EVT::getExtendedMatrixVT\<close>: a default EVT whose handle is set, then the assertion.
\<close>

definition assert_extended :: "EVT \<Rightarrow> error + EVT" where
  "assert_extended VT = (if isExtended VT then Inr VT else Inl Type_is_not_extended)"

definition getExtendedIntegerVT :: "LLVMContext \<Rightarrow> 32 word \<Rightarrow> error + EVT" where
  "getExtendedIntegerVT Context BitWidth =
     assert_extended (EVT_default\<lparr>LLVMTy := Some (IntegerTy BitWidth)\<rparr>)"

definition getExtendedVectorVT :: "LLVMContext \<Rightarrow> EVT \<Rightarrow> ElementCount \<Rightarrow> error + EVT" where
  "getExtendedVectorVT Context VT EC =
     (case getTypeForEVT Context VT of
        Inl e \<Rightarrow> Inl e
      | Inr Ty \<Rightarrow> assert_extended (EVT_default\<lparr>LLVMTy := Some (VectorType_get Ty EC)\<rparr>))"

definition getExtendedMatrixVT ::
  "LLVMContext \<Rightarrow> EVT \<Rightarrow> 32 word \<Rightarrow> 32 word \<Rightarrow> bool \<Rightarrow> error + EVT" where
  "getExtendedMatrixVT Context VT NumElements NumElements2 IsScalable =
     (case getTypeForEVT Context VT of
        Inl e \<Rightarrow> Inl e
      | Inr Ty \<Rightarrow>
          assert_extended
            (EVT_default\<lparr>LLVMTy := Some (ScalableMatrixTy Ty NumElements NumElements2 IsScalable)\<rparr>))"

text \<open>
  Modelled from the spec: \<^verbatim>\<open>EVT::getIntegerVT\<close>, \<^verbatim>\<open>EVT::getVectorVT\<close> and
  \<^verbatim>\<open>EVT::getMatrixVT\<close>, defined in \<^verbatim>\<open>ValueTypes.h\<close>, which is absent: the simple type
  when the closed enumeration has an exact match, and the extended type built by the
  functions above whenever it has none.
\<close>

definition EVT_getIntegerVT :: "LLVMContext \<Rightarrow> 32 word \<Rightarrow> error + EVT" where
  "EVT_getIntegerVT Context BitWidth =
     (let M = MVT_getIntegerVT BitWidth
      in if M \<noteq> INVALID_SIMPLE_VALUE_TYPE then Inr (EVT_of_MVT M)
         else getExtendedIntegerVT Context BitWidth)"

definition EVT_getVectorVT :: "LLVMContext \<Rightarrow> EVT \<Rightarrow> ElementCount \<Rightarrow> error + EVT" where
  "EVT_getVectorVT Context VT EC =
     (let M = MVT_getVectorVT (V VT) EC
      in if M \<noteq> INVALID_SIMPLE_VALUE_TYPE then Inr (EVT_of_MVT M)
         else getExtendedVectorVT Context VT EC)"

definition EVT_getMatrixVT ::
  "LLVMContext \<Rightarrow> EVT \<Rightarrow> 32 word \<Rightarrow> 32 word \<Rightarrow> bool \<Rightarrow> error + EVT" where
  "EVT_getMatrixVT Context VT NumElements NumElements2 IsScalable =
     (let M = MVT_getMatrixVT (V VT) NumElements NumElements2 IsScalable
      in if M \<noteq> INVALID_SIMPLE_VALUE_TYPE then Inr (EVT_of_MVT M)
         else getExtendedMatrixVT Context VT NumElements NumElements2 IsScalable)"

text \<open>
  \<^verbatim>\<open>EVT::getEVT(Type *Ty, bool HandleUnknown)\<close>; the context is the one of \<^verbatim>\<open>Ty\<close>. The
  last equation is the \<^verbatim>\<open>default\<close> label.
\<close>

fun getEVT :: "LLVMContext \<Rightarrow> Type \<Rightarrow> bool \<Rightarrow> error + EVT" where
  "getEVT Context (IntegerTy BitWidth) HandleUnknown = EVT_getIntegerVT Context BitWidth"
| "getEVT Context (FixedVectorTy ElementType n) HandleUnknown =
     (case getEVT Context ElementType False of
        Inl e \<Rightarrow> Inl e
      | Inr VT \<Rightarrow> EVT_getVectorVT Context VT (ElementCount_getFixed n))"
| "getEVT Context (ScalableVectorTy ElementType n) HandleUnknown =
     (case getEVT Context ElementType False of
        Inl e \<Rightarrow> Inl e
      | Inr VT \<Rightarrow> EVT_getVectorVT Context VT (ElementCount_getScalable n))"
| "getEVT Context (ScalableMatrixTy ElementType NumElts NumElts2 Scalable) HandleUnknown =
     (case getEVT Context ElementType False of
        Inl e \<Rightarrow> Inl e
      | Inr VT \<Rightarrow> EVT_getMatrixVT Context VT NumElts NumElts2 Scalable)"
| "getEVT Context Ty HandleUnknown =
     (case getVT Ty HandleUnknown of Inl e \<Rightarrow> Inl e | Inr M \<Rightarrow> Inr (EVT_of_MVT M))"

text \<open>
  \<^verbatim>\<open>EVT::getExtendedSizeInBits\<close>. \<^verbatim>\<open>dyn_cast<VectorType>\<close> succeeds on the two vector
  kinds; \<^verbatim>\<open>getPrimitiveSizeInBits\<close> belongs to the type graph and is a parameter. The bit
  width of an integer type is an \<^verbatim>\<open>unsigned\<close>, widened to the \<^verbatim>\<open>uint64_t\<close> of a TypeSize.
\<close>

definition getExtendedSizeInBits :: "(Type \<Rightarrow> TypeSize) \<Rightarrow> EVT \<Rightarrow> error + TypeSize" where
  "getExtendedSizeInBits getPrimitiveSizeInBits VT =
     (if \<not> isExtended VT then Inl Type_is_not_extended
      else (case LLVMTy VT of
              Some (IntegerTy BitWidth) \<Rightarrow> Inr (TypeSize_getFixed (ucast BitWidth))
            | Some (FixedVectorTy ElementType n) \<Rightarrow>
                Inr (getPrimitiveSizeInBits (FixedVectorTy ElementType n))
            | Some (ScalableVectorTy ElementType n) \<Rightarrow>
                Inr (getPrimitiveSizeInBits (ScalableVectorTy ElementType n))
            | _ \<Rightarrow> Inl Unrecognized_extended_type))"

text \<open>
  A context whose WebAssembly reference types are pointers in the address spaces 10 and
  20. The closed examples below are evaluated in it.
\<close>

definition Context_wasm_pointers :: LLVMContext where
  "Context_wasm_pointers =
     \<lparr>getWasm_ExternrefTy = PointerTy 10, getWasm_FuncrefTy = PointerTy 20\<rparr>"

section \<open>LowLevelType (LowLevelType.cpp)\<close>

text \<open>
  The constructor \<^verbatim>\<open>LLT::LLT(MVT VT)\<close> reads its argument through the queries of \<^verbatim>\<open>MVT\<close>
  (\<^verbatim>\<open>MachineValueType.h\<close>, absent from the sources). Their answers for one value type
  are the fields of a record; the sizes are the \<^verbatim>\<open>uint64_t\<close> that \<^verbatim>\<open>init\<close> receives.
\<close>

record MVT_queries =
  VT_isMatrix :: bool
  VT_getMatrixNumElements :: "32 word"
  VT_getMatrixNumElements2 :: "32 word"
  VT_isScalableMatrix :: bool
  VT_getMatrixElementSizeInBits :: "64 word"
  VT_isVector :: bool
  VT_getVectorMinNumElements :: "32 word"
  VT_isScalableVector :: bool
  VT_getVectorElementCount :: ElementCount
  VT_getVectorElementSizeInBits :: "64 word"
  VT_isValid :: bool
  VT_isScalableTargetExtVT :: bool
  VT_getSizeInBits :: "64 word"

text \<open>
  The four flags are members of \<^verbatim>\<open>LLT\<close>. \<^verbatim>\<open>RawData\<close> is a packed integer in the source;
  its packing is done by \<^verbatim>\<open>init\<close>, so the payload is kept as the fields that the spec
  lists: the bit size, the element count, the address space and the two dimensions of
  a matrix with its scalability.
\<close>

record LLT_payload =
  SizeInBits :: "64 word"
  Elements :: ElementCount
  AddressSpace :: "32 word"
  MatrixElements :: "32 word"
  MatrixElements2 :: "32 word"
  MatrixScalable :: bool

definition RawData_zero :: LLT_payload where
  "RawData_zero =
     \<lparr>SizeInBits = 0, Elements = ElementCount_getFixed 0, AddressSpace = 0,
      MatrixElements = 0, MatrixElements2 = 0, MatrixScalable = False\<rparr>"

record LLT =
  IsScalar :: bool
  IsPointer :: bool
  IsVector :: bool
  IsMatrix :: bool
  RawData :: LLT_payload

text \<open>
  Modelled from the spec: \<^verbatim>\<open>LLT::init\<close>, defined in \<^verbatim>\<open>LowLevelType.h\<close>, which is absent.
  It sets the four flags as they are passed, in the order of the calls below (pointer,
  matrix, vector, scalar), and records the size, the element count of a vector, the
  address space of a pointer and the dimensions of a matrix.
\<close>

definition init ::
  "bool \<Rightarrow> bool \<Rightarrow> bool \<Rightarrow> bool \<Rightarrow> ElementCount \<Rightarrow> 64 word \<Rightarrow> 32 word \<Rightarrow>
   32 word \<Rightarrow> 32 word \<Rightarrow> bool \<Rightarrow> LLT" where
  "init pPointer pMatrix pVector pScalar EC Size AS NumElements NumElements2 Scalable =
     \<lparr>IsScalar = pScalar, IsPointer = pPointer, IsVector = pVector, IsMatrix = pMatrix,
      RawData =
        \<lparr>SizeInBits = Size,
         Elements = (if pVector then EC else ElementCount_getFixed 0),
         AddressSpace = (if pPointer then AS else 0),
         MatrixElements = (if pMatrix then NumElements else 0),
         MatrixElements2 = (if pMatrix then NumElements2 else 0),
         MatrixScalable = (if pMatrix then Scalable else False)\<rparr>\<rparr>"

text \<open>The \<^verbatim>\<open>else\<close> branch of the constructor: every flag false, \<^verbatim>\<open>RawData = 0\<close>.\<close>

definition LLT_invalid :: LLT where
  "LLT_invalid =
     \<lparr>IsScalar = False, IsPointer = False, IsVector = False, IsMatrix = False,
      RawData = RawData_zero\<rparr>"

text \<open>
  \<^verbatim>\<open>LLT::LLT(MVT VT)\<close>. The first disjunct of \<^verbatim>\<open>asMatrix\<close> reads
  \<^verbatim>\<open>VT.getMatrixNumElements() > 1 && VT.getMatrixNumElements() > 1\<close> in the source.
\<close>

definition LLT_of_MVT :: "MVT_queries \<Rightarrow> LLT" where
  "LLT_of_MVT VT =
     (if VT_isMatrix VT then
        (let asMatrix = (VT_getMatrixNumElements VT > 1 \<and> VT_getMatrixNumElements VT > 1)
                        \<or> VT_isScalableMatrix VT
         in init False asMatrix False (\<not> asMatrix) (ElementCount_getFixed 0)
              (VT_getMatrixElementSizeInBits VT) 0
              (VT_getMatrixNumElements VT) (VT_getMatrixNumElements2 VT) (VT_isScalableMatrix VT))
      else if VT_isVector VT then
        (let asVector = VT_getVectorMinNumElements VT > 1 \<or> VT_isScalableVector VT
         in init False False asVector (\<not> asVector) (VT_getVectorElementCount VT)
              (VT_getVectorElementSizeInBits VT) 0 0 0 False)
      else if VT_isValid VT \<and> \<not> VT_isScalableTargetExtVT VT then
        init False False False True (ElementCount_getFixed 0) (VT_getSizeInBits VT) 0 0 0 False
      else LLT_invalid)"

text \<open>
  The classifications that apply to an LLT: one per flag that is set, and \<open>invalid\<close>
  when none is.
\<close>

datatype classification = invalid | scalar | pointer | vector | matrix

definition classifications :: "LLT \<Rightarrow> classification list" where
  "classifications L =
     (if IsScalar L then [scalar] else []) @
     (if IsPointer L then [pointer] else []) @
     (if IsVector L then [vector] else []) @
     (if IsMatrix L then [matrix] else []) @
     (if \<not> (IsScalar L \<or> IsPointer L \<or> IsVector L \<or> IsMatrix L) then [invalid] else [])"

text \<open>
  What the queries answer for \<^verbatim>\<open>MVT::m1x2xi8\<close>, the non-scalable 1 x 2 matrix of \<^verbatim>\<open>i8\<close>
  (\<^verbatim>\<open>ScalableMatrixType::get(Type::getInt8Ty(Context), 1, 2, false)\<close> in the table): 16
  bits in all, 8 bits per element.
\<close>

definition queries_m1x2xi8 :: MVT_queries where
  "queries_m1x2xi8 =
     \<lparr>VT_isMatrix = True, VT_getMatrixNumElements = 1, VT_getMatrixNumElements2 = 2,
      VT_isScalableMatrix = False, VT_getMatrixElementSizeInBits = 8,
      VT_isVector = False, VT_getVectorMinNumElements = 0, VT_isScalableVector = False,
      VT_getVectorElementCount = ElementCount_getFixed 0, VT_getVectorElementSizeInBits = 0,
      VT_isValid = True, VT_isScalableTargetExtVT = False, VT_getSizeInBits = 16\<rparr>"

section \<open>Auxiliary facts\<close>

lemmas quantity_defs = isScalable_def isZero_def getKnownMinValue_def getScale_def get_def
  get_bool_def

lemmas factory_defs = ElementCount_get_def ElementCount_getFixed_def ElementCount_getScalable_def
  TypeSize_get_def TypeSize_getFixed_def TypeSize_getScalable_def

lemmas ordering_defs = isKnownLT_def isKnownGT_def isKnownLE_def isKnownGE_def

lemmas arithmetic_defs = plus_then_minus_def q_plus_def q_minus_def plus_assign_def
  minus_assign_def q_eq_def compatible_def

lemmas table_defs = getTypeForEVT_table_def table_scalars_def table_fixed_vectors_def
  table_scalable_vectors_def table_matrices_def table_scalable_matrices_def table_metadata_def

lemmas LLT_defs = LLT_of_MVT_def init_def LLT_invalid_def classifications_def Let_def

subsection \<open>Tags\<close>

lemma isScalableV_iff: "isScalableV c \<longleftrightarrow> Scale c = Scale_V"
  by (cases "Scale c") (simp_all add: isScalableV_def)

subsection \<open>Rounding in machine words\<close>

lemma unat_round_down: "unat ((w :: 'a::len word) div n * n) = unat w div unat n * unat n"
proof -
  have "unat w div unat n * unat n \<le> unat w" by simp
  then have "unat (w div n) * unat n < 2 ^ LENGTH('a)"
    by (metis unat_div le_less_trans unsigned_less)
  then show ?thesis by (simp add: unat_mult_lem [THEN iffD1] unat_div)
qed

lemma round_down_mod: "((w :: 'a::len word) div n * n) mod n = 0"
proof -
  have "unat ((w div n * n) mod n) = 0"
    by (simp add: unat_mod unat_round_down)
  then show ?thesis by (simp add: unat_eq_zero)
qed

lemma unat_ucast_32_64: "unat (ucast (w :: 32 word) :: 64 word) = unat w"
proof -
  have "unat w < 2 ^ 32" using unsigned_less [of w] by simp
  also have "(2::nat) ^ 32 < 2 ^ 64" by simp
  finally show ?thesis by (simp add: unsigned_ucast_eq take_bit_nat_eq_self)
qed

subsection \<open>The table of getTypeForEVT\<close>

lemma labels_distinct: "distinct getTypeForEVT_labels"
  by (simp add: getTypeForEVT_labels_def table_defs)

lemma unlabelled:
  "INVALID_SIMPLE_VALUE_TYPE \<notin> set getTypeForEVT_labels"
  "Other \<notin> set getTypeForEVT_labels"
  "Glue \<notin> set getTypeForEVT_labels"
  "Untyped \<notin> set getTypeForEVT_labels"
  "iPTR \<notin> set getTypeForEVT_labels"
  "spirvbuiltin \<notin> set getTypeForEVT_labels"
  by (simp_all add: getTypeForEVT_labels_def table_defs)

lemma wasm_not_in_table:
  "externref \<notin> set (map fst getTypeForEVT_table)"
  "funcref \<notin> set (map fst getTypeForEVT_table)"
  using labels_distinct by (simp_all add: getTypeForEVT_labels_def)

lemma entry_enumerated: "(t, Ty) \<in> set getTypeForEVT_table \<Longrightarrow> enumerated_or_invalid t = t"
  by (force simp: enumerated_or_invalid_def getTypeForEVT_labels_def)

text \<open>Each part of the table, entry by entry: the type of a label is classified back to it.\<close>

lemma round_trip_scalars:
  "list_all (\<lambda>(t, Ty). t = i64x8 \<or> getVT Ty False = Inr t) table_scalars"
  by (simp add: table_scalars_def MVT_getIntegerVT_def)

lemma round_trip_fixed_vectors:
  "list_all (\<lambda>(t, Ty). getVT Ty False = Inr (enumerated_or_invalid t)) table_fixed_vectors"
  by (simp add: table_fixed_vectors_def MVT_getVectorVT_def MVT_getIntegerVT_def
      ElementCount_getFixed_def quantity_defs)

lemma round_trip_scalable_vectors:
  "list_all (\<lambda>(t, Ty). getVT Ty False = Inr (enumerated_or_invalid t)) table_scalable_vectors"
  by (simp add: table_scalable_vectors_def MVT_getVectorVT_def MVT_getIntegerVT_def
      ElementCount_getScalable_def quantity_defs)

lemma round_trip_matrices:
  "list_all (\<lambda>(t, Ty). getVT Ty False = Inr (enumerated_or_invalid t)) table_matrices"
  by (simp add: table_matrices_def MVT_getMatrixVT_def MVT_getIntegerVT_def)

lemma round_trip_scalable_matrices:
  "list_all (\<lambda>(t, Ty). getVT Ty False = Inr (enumerated_or_invalid t)) table_scalable_matrices"
  by (simp add: table_scalable_matrices_def MVT_getMatrixVT_def MVT_getIntegerVT_def)

lemma round_trip_entry:
  assumes "(t, Ty) \<in> set getTypeForEVT_table" and "t \<noteq> Metadata" and "t \<noteq> i64x8"
  shows "getVT Ty False = Inr t"
proof -
  have e: "enumerated_or_invalid t = t" using assms(1) by (rule entry_enumerated)
  from assms(1) consider
      "(t, Ty) \<in> set table_scalars" | "(t, Ty) \<in> set table_fixed_vectors"
    | "(t, Ty) \<in> set table_scalable_vectors" | "(t, Ty) \<in> set table_matrices"
    | "(t, Ty) \<in> set table_scalable_matrices" | "(t, Ty) \<in> set table_metadata"
    by (auto simp: getTypeForEVT_table_def)
  then show ?thesis
  proof cases
    case 1 with round_trip_scalars assms(3) show ?thesis by (auto simp: list_all_iff)
  next
    case 2 with round_trip_fixed_vectors e show ?thesis by (auto simp: list_all_iff)
  next
    case 3 with round_trip_scalable_vectors e show ?thesis by (auto simp: list_all_iff)
  next
    case 4 with round_trip_matrices e show ?thesis by (auto simp: list_all_iff)
  next
    case 5 with round_trip_scalable_matrices e show ?thesis by (auto simp: list_all_iff)
  next
    case 6 with assms(2) show ?thesis by (simp add: table_metadata_def)
  qed
qed

lemma getTypeForEVT_simple:
  "getTypeForEVT Context (EVT_of_MVT t) =
     (case getTypeForEVT_switch Context t of
        Some Ty \<Rightarrow> Inr Ty
      | None \<Rightarrow> Inl Type_is_not_extended)"
  by (simp add: getTypeForEVT_def EVT_of_MVT_def isExtended_def split: option.split)

lemma getTypeForEVT_switch_None_iff:
  "getTypeForEVT_switch Context t = None \<longleftrightarrow> t \<notin> set getTypeForEVT_labels"
  by (auto simp: getTypeForEVT_switch_def getTypeForEVT_labels_def map_of_eq_None_iff)

lemma getTypeForEVT_aborts_iff:
  "getTypeForEVT Context (EVT_of_MVT t) = Inl Type_is_not_extended
     \<longleftrightarrow> t \<notin> set getTypeForEVT_labels"
proof -
  have "getTypeForEVT Context (EVT_of_MVT t) = Inl Type_is_not_extended
          \<longleftrightarrow> getTypeForEVT_switch Context t = None"
    by (simp add: getTypeForEVT_simple split: option.split)
  then show ?thesis by (simp only: getTypeForEVT_switch_None_iff)
qed

text \<open>No type is classified as \<^verbatim>\<open>externref\<close> or \<^verbatim>\<open>funcref\<close>.\<close>

lemma getVT_not_wasm:
  "getVT Ty HandleUnknown \<noteq> Inr externref" "getVT Ty HandleUnknown \<noteq> Inr funcref"
  by (cases Ty; simp add: MVT_getIntegerVT_def MVT_getVectorVT_def MVT_getMatrixVT_def
      enumerated_or_invalid_def split: sum.split)+

lemma round_trip_wasm:
  "round_trip Context externref \<noteq> Inr externref"
  "round_trip Context funcref \<noteq> Inr funcref"
  by (simp_all add: round_trip_def getTypeForEVT_def getTypeForEVT_switch_def EVT_of_MVT_def
      getVT_not_wasm)

lemma round_trip_Metadata: "round_trip Context Metadata = Inl Unknown_type"
  by (simp add: round_trip_def getTypeForEVT_def getTypeForEVT_switch_def EVT_of_MVT_def
      table_defs)

lemma round_trip_i64x8: "round_trip Context i64x8 = Inr INVALID_SIMPLE_VALUE_TYPE"
  by (simp add: round_trip_def getTypeForEVT_def getTypeForEVT_switch_def EVT_of_MVT_def
      table_defs MVT_getIntegerVT_def)

lemma round_trip_label:
  assumes "t \<in> set (map fst getTypeForEVT_table)" and "t \<noteq> Metadata" and "t \<noteq> i64x8"
  shows "round_trip Context t = Inr t"
proof -
  from assms(1) have "map_of getTypeForEVT_table t \<noteq> None" by (simp add: map_of_eq_None_iff)
  then obtain Ty where m: "map_of getTypeForEVT_table t = Some Ty" by auto
  then have "(t, Ty) \<in> set getTypeForEVT_table" by (rule map_of_SomeD)
  with assms have "getVT Ty False = Inr t" by (simp add: round_trip_entry)
  moreover have "t \<noteq> externref" "t \<noteq> funcref" using assms(1) wasm_not_in_table by blast+
  ultimately show ?thesis
    using m by (simp add: round_trip_def getTypeForEVT_def getTypeForEVT_switch_def EVT_of_MVT_def)
qed

subsection \<open>The parts of alignTo and of the LLT constructor that hold\<close>

lemma alignTo_multiple_and_tag:
  assumes "n \<noteq> 0"
  shows "\<exists>y. alignTo x n = Inr y \<and> getKnownMinValue y mod n = 0 \<and>
           unat n dvd unat (getKnownMinValue y) \<and> getScale y = getScale x"
  using assms
  by (simp add: alignTo_def TypeSize_get_def quantity_defs round_down_mod unat_round_down)

lemma alignTo_zero: "alignTo x 0 = Inl Align_must_be_non_zero"
  by (simp add: alignTo_def)

lemma LLT_one_classification:
  "\<exists>k. classifications (LLT_of_MVT VT) = [k] \<and> k \<noteq> pointer"
  by (auto simp: LLT_defs)

lemma LLT_of_vector:
  assumes "\<not> VT_isMatrix VT" and "VT_isVector VT"
  shows "classifications (LLT_of_MVT VT) =
           (if VT_getVectorMinNumElements VT > 1 \<or> VT_isScalableVector VT then [vector]
            else [scalar])"
  using assms by (auto simp: LLT_defs)

lemma LLT_of_other:
  assumes "\<not> VT_isMatrix VT" and "\<not> VT_isVector VT"
  shows "if VT_isValid VT \<and> \<not> VT_isScalableTargetExtVT VT
         then classifications (LLT_of_MVT VT) = [scalar] \<and>
              SizeInBits (RawData (LLT_of_MVT VT)) = VT_getSizeInBits VT
         else LLT_of_MVT VT = LLT_invalid \<and> classifications (LLT_of_MVT VT) = [invalid]"
  using assms by (auto simp: LLT_defs)

section \<open>C1: ordering across scale tags\<close>

text \<open>
  C1, as amended. For a scale-tagged \<open>a\<close> and a \<open>b\<close> whose tag differs from the one of
  \<open>a\<close>, \<open>isKnownLT\<close>, \<open>isKnownLE\<close> and \<open>isKnownGE\<close> return false whatever the two
  magnitudes are. \<open>isKnownGT\<close> returns false when the magnitude of \<open>a\<close> is at most the
  one of \<open>b\<close>, and against an untagged \<open>b\<close> it returns true exactly when the magnitude
  of \<open>a\<close> is the greater one.
\<close>

theorem ordering_across_tags:
  fixes a b :: "'a::len quantity"
  assumes "isScalable a" and "Scale b \<noteq> Scale a"
  shows "\<not> isKnownLT a b \<and> \<not> isKnownLE a b \<and> \<not> isKnownGE a b \<and>
         (Quantity a \<le> Quantity b \<longrightarrow> \<not> isKnownGT a b) \<and>
         (Scale b = Scale_None \<longrightarrow> isKnownGT a b = (Quantity b < Quantity a))"
  using assms by (auto simp: ordering_defs quantity_defs)

text \<open>
  The theorem at \<^verbatim>\<open>ElementCount::getScalable(5)\<close> against \<^verbatim>\<open>ElementCount::getFixed(3)\<close>, and
  at \<^verbatim>\<open>ElementCount::getScalable(3)\<close> against \<^verbatim>\<open>ElementCount::get(5, ScaleID::M)\<close>.
\<close>

theorem ordering_across_tags_witness:
  "isScalable (ElementCount_getScalable 5) \<and>
   Scale (ElementCount_getFixed 3) \<noteq> Scale (ElementCount_getScalable 5) \<and>
   Scale (ElementCount_getFixed 3) = Scale_None \<and>
   \<not> isKnownLT (ElementCount_getScalable 5) (ElementCount_getFixed 3) \<and>
   \<not> isKnownLE (ElementCount_getScalable 5) (ElementCount_getFixed 3) \<and>
   \<not> isKnownGE (ElementCount_getScalable 5) (ElementCount_getFixed 3) \<and>
   isKnownGT (ElementCount_getScalable 5) (ElementCount_getFixed 3) \<and>
   Quantity (ElementCount_getScalable 3) \<le> Quantity (ElementCount_get 5 Scale_M) \<and>
   \<not> isKnownGT (ElementCount_getScalable 3) (ElementCount_get 5 Scale_M)"
  using ordering_across_tags [of "ElementCount_getScalable 5" "ElementCount_getFixed 3"]
    ordering_across_tags [of "ElementCount_getScalable 3" "ElementCount_get 5 Scale_M"]
  by (simp add: factory_defs quantity_defs)

text \<open>
  C1 as stated fails: \<open>a\<close> is scale-tagged, \<open>b\<close> is not, and \<open>isKnownGT a b\<close> is true.
\<close>

theorem isKnownGT_scalable_vs_fixed:
  "isScalable (ElementCount_getScalable 5) \<and>
   \<not> isScalable (ElementCount_getFixed 3) \<and>
   isKnownGT (ElementCount_getScalable 5) (ElementCount_getFixed 3)"
  by (simp add: ordering_defs factory_defs quantity_defs)

section \<open>C2: StackOffset::get\<close>

text \<open>
  C2. \<^verbatim>\<open>StackOffset::get(0, 0, 1, 2, 0)\<close>: the N component read back is 1, the M
  argument, and not 2, the N argument.
\<close>

theorem StackOffset_get_N_axis:
  "getScalableN (StackOffset_get 0 0 1 2 0) = 1 \<and>
   getScalableN (StackOffset_get 0 0 1 2 0) \<noteq> 2 \<and>
   getScalableN (StackOffset_getScalableN 2) = 2"
  by (simp add: StackOffset_get_def StackOffset_getScalableN_def StackOffset_ctor_def
      getScalableN_def)

section \<open>C3: the round trip through getTypeForEVT\<close>

text \<open>
  C3, as amended. The \<^verbatim>\<open>case\<close> labels of \<open>getTypeForEVT\<close> are pairwise distinct, so a
  labelled tag has exactly one entry, and \<open>getTypeForEVT\<close> returns a type for a simple
  tag exactly when the tag has a label; it aborts for every other one. \<^verbatim>\<open>Other\<close>, \<^verbatim>\<open>Glue\<close>,
  \<^verbatim>\<open>Untyped\<close>, \<^verbatim>\<open>iPTR\<close> and \<^verbatim>\<open>spirvbuiltin\<close> have no label. For a labelled tag \<open>t\<close>,
  \<^verbatim>\<open>getVT(getTypeForEVT(t), false)\<close> is \<open>t\<close> exactly when \<open>t\<close> is none of \<^verbatim>\<open>Metadata\<close>,
  \<^verbatim>\<open>i64x8\<close>, \<^verbatim>\<open>externref\<close> and \<^verbatim>\<open>funcref\<close>: the type of \<^verbatim>\<open>Metadata\<close> is unknown to \<open>getVT\<close>,
  the 512-bit integer of \<^verbatim>\<open>i64x8\<close> has no integer tag, and no type is classified as
  \<^verbatim>\<open>externref\<close> or \<^verbatim>\<open>funcref\<close>.
\<close>

theorem getTypeForEVT_round_trip:
  "distinct getTypeForEVT_labels \<and>
   (getTypeForEVT Context (EVT_of_MVT t) = Inl Type_is_not_extended
      \<longleftrightarrow> t \<notin> set getTypeForEVT_labels) \<and>
   (t \<in> set getTypeForEVT_labels
      \<longrightarrow> (\<exists>Ty. getTypeForEVT Context (EVT_of_MVT t) = Inr Ty)) \<and>
   Other \<notin> set getTypeForEVT_labels \<and> Glue \<notin> set getTypeForEVT_labels \<and>
   Untyped \<notin> set getTypeForEVT_labels \<and> iPTR \<notin> set getTypeForEVT_labels \<and>
   spirvbuiltin \<notin> set getTypeForEVT_labels \<and>
   (t \<in> set getTypeForEVT_labels
      \<longrightarrow> (round_trip Context t = Inr t \<longleftrightarrow> t \<notin> {Metadata, i64x8, externref, funcref})) \<and>
   round_trip Context Metadata = Inl Unknown_type \<and>
   round_trip Context i64x8 = Inr INVALID_SIMPLE_VALUE_TYPE \<and>
   round_trip Context externref \<noteq> Inr externref \<and>
   round_trip Context funcref \<noteq> Inr funcref"
proof (intro conjI impI)
  show "distinct getTypeForEVT_labels" by (rule labels_distinct)
  show "getTypeForEVT Context (EVT_of_MVT t) = Inl Type_is_not_extended
          \<longleftrightarrow> t \<notin> set getTypeForEVT_labels"
    by (rule getTypeForEVT_aborts_iff)
  show "Other \<notin> set getTypeForEVT_labels" "Glue \<notin> set getTypeForEVT_labels"
    "Untyped \<notin> set getTypeForEVT_labels" "iPTR \<notin> set getTypeForEVT_labels"
    "spirvbuiltin \<notin> set getTypeForEVT_labels"
    by (rule unlabelled)+
  show "round_trip Context Metadata = Inl Unknown_type" by (rule round_trip_Metadata)
  show "round_trip Context i64x8 = Inr INVALID_SIMPLE_VALUE_TYPE" by (rule round_trip_i64x8)
  show "round_trip Context externref \<noteq> Inr externref"
    "round_trip Context funcref \<noteq> Inr funcref"
    by (rule round_trip_wasm)+
next
  assume "t \<in> set getTypeForEVT_labels"
  then have "getTypeForEVT_switch Context t \<noteq> None"
    by (simp add: getTypeForEVT_switch_None_iff)
  then show "\<exists>Ty. getTypeForEVT Context (EVT_of_MVT t) = Inr Ty"
    by (auto simp: getTypeForEVT_simple)
next
  assume l: "t \<in> set getTypeForEVT_labels"
  show "round_trip Context t = Inr t \<longleftrightarrow> t \<notin> {Metadata, i64x8, externref, funcref}"
  proof (cases "t \<in> {Metadata, i64x8, externref, funcref}")
    case True
    then show ?thesis
      using round_trip_wasm [of Context] by (auto simp: round_trip_Metadata round_trip_i64x8)
  next
    case False
    with l have "t \<in> set (map fst getTypeForEVT_table)"
      by (simp add: getTypeForEVT_labels_def)
    with False show ?thesis by (simp add: round_trip_label)
  qed
qed

text \<open>The theorem at \<^verbatim>\<open>MVT::nxv4i32\<close>.\<close>

theorem getTypeForEVT_round_trip_witness:
  "mvt_nxv 4 i32 \<in> set getTypeForEVT_labels \<and>
   mvt_nxv 4 i32 \<notin> {Metadata, i64x8, externref, funcref} \<and>
   getTypeForEVT Context_wasm_pointers (EVT_of_MVT (mvt_nxv 4 i32))
     \<noteq> Inl Type_is_not_extended \<and>
   round_trip Context_wasm_pointers (mvt_nxv 4 i32) = Inr (mvt_nxv 4 i32)"
  using getTypeForEVT_round_trip [of Context_wasm_pointers "mvt_nxv 4 i32"]
  by (simp add: getTypeForEVT_labels_def table_defs)

text \<open>
  C3 as stated fails. \<^verbatim>\<open>MVT::Other\<close> is a tag, the one \<open>getVT\<close> itself returns for an
  unknown type, it is not the invalid value, and the table has no entry for it:
  \<open>getTypeForEVT\<close> aborts. \<^verbatim>\<open>MVT::Metadata\<close> has an entry, and \<open>getVT\<close> has no \<^verbatim>\<open>case\<close> for
  the type of that entry. \<^verbatim>\<open>MVT::i64x8\<close> has an entry, the 512-bit integer type, which
  is classified as the invalid value.
\<close>

theorem getTypeForEVT_not_exhaustive:
  "getVT LabelTy True = Inr Other \<and> Other \<noteq> INVALID_SIMPLE_VALUE_TYPE \<and>
   getTypeForEVT Context_wasm_pointers (EVT_of_MVT Other) = Inl Type_is_not_extended \<and>
   Metadata \<noteq> INVALID_SIMPLE_VALUE_TYPE \<and>
   getTypeForEVT Context_wasm_pointers (EVT_of_MVT Metadata) = Inr MetadataTy \<and>
   getVT MetadataTy False = Inl Unknown_type \<and>
   round_trip Context_wasm_pointers Metadata = Inl Unknown_type \<and>
   getTypeForEVT Context_wasm_pointers (EVT_of_MVT i64x8) = Inr (IntegerTy 512) \<and>
   round_trip Context_wasm_pointers i64x8 = Inr INVALID_SIMPLE_VALUE_TYPE"
  by (simp add: getTypeForEVT_def getTypeForEVT_switch_def EVT_of_MVT_def isExtended_def
      round_trip_def table_defs MVT_getIntegerVT_def)

section \<open>C4: addition and subtraction\<close>

text \<open>
  C4, as amended. For operands the contract admits (one magnitude is zero, or the tags
  are equal), \<^verbatim>\<open>(a + b) - b\<close>, \<^verbatim>\<open>a + b\<close> and \<^verbatim>\<open>b + a\<close> pass their assertions.
  \<^verbatim>\<open>(a + b) - b\<close> has the magnitude of \<open>a\<close>, and is \<^verbatim>\<open>==\<close> to \<open>a\<close> exactly when \<open>b\<close> is zero
  or the two tags are equal. \<^verbatim>\<open>a + b == b + a\<close> holds exactly when one operand is non-zero
  or the two tags are equal. So both equations hold for operands of one tag.
\<close>

theorem algebra_closure:
  fixes a b :: "'a::len quantity"
  assumes "compatible a b"
  shows "\<exists>c s d. plus_then_minus a b = Inr c \<and> q_plus a b = Inr s \<and> q_plus b a = Inr d \<and>
           Quantity c = Quantity a \<and>
           (q_eq c a \<longleftrightarrow> isZero b \<or> Scale a = Scale b) \<and>
           (q_eq s d \<longleftrightarrow> \<not> isZero a \<or> \<not> isZero b \<or> Scale a = Scale b) \<and>
           (Scale a = Scale b \<longrightarrow> q_eq c a \<and> q_eq s d)"
  using assms by (auto simp: arithmetic_defs isZero_def add.commute)

text \<open>The theorem at \<^verbatim>\<open>TypeSize::getScalable(8)\<close> and \<^verbatim>\<open>TypeSize::getScalable(4)\<close>.\<close>

theorem algebra_closure_witness:
  "compatible (TypeSize_getScalable 8) (TypeSize_getScalable 4) \<and>
   plus_then_minus (TypeSize_getScalable 8) (TypeSize_getScalable 4)
     = Inr (TypeSize_getScalable 8) \<and>
   q_plus (TypeSize_getScalable 8) (TypeSize_getScalable 4) = Inr (TypeSize_getScalable 12) \<and>
   q_plus (TypeSize_getScalable 4) (TypeSize_getScalable 8) = Inr (TypeSize_getScalable 12)"
  using algebra_closure [of "TypeSize_getScalable 8" "TypeSize_getScalable 4"]
  by (simp add: arithmetic_defs factory_defs quantity_defs)

text \<open>
  C4 as stated fails: the operands are compatible, since \<open>a\<close> is the fixed zero, and
  \<^verbatim>\<open>(a + b) - b\<close> is the scalable zero, which \<^verbatim>\<open>==\<close> tells from \<open>a\<close>.
\<close>

theorem plus_minus_changes_tag:
  "compatible (TypeSize_getFixed 0) (TypeSize_getScalable 4) \<and>
   plus_then_minus (TypeSize_getFixed 0) (TypeSize_getScalable 4)
     = Inr (TypeSize_getScalable 0) \<and>
   \<not> q_eq (TypeSize_getScalable 0) (TypeSize_getFixed 0)"
  by (simp add: arithmetic_defs factory_defs quantity_defs)

section \<open>C5: LLT from a machine value type\<close>

text \<open>
  C5. \<^verbatim>\<open>MVT::m1x2xi8\<close> is a matrix, not scalable and not 1 x 1, of 16 bits. The
  constructor does not classify it as a matrix: its LLT is a scalar of 8 bits, the size
  of one element.
\<close>

theorem LLT_row_matrix_is_scalar:
  "VT_isMatrix queries_m1x2xi8 \<and> \<not> VT_isScalableMatrix queries_m1x2xi8 \<and>
   VT_getMatrixNumElements queries_m1x2xi8 = 1 \<and>
   VT_getMatrixNumElements2 queries_m1x2xi8 = 2 \<and>
   VT_getSizeInBits queries_m1x2xi8 = 16 \<and>
   classifications (LLT_of_MVT queries_m1x2xi8) = [scalar] \<and>
   classifications (LLT_of_MVT queries_m1x2xi8) \<noteq> [matrix] \<and>
   SizeInBits (RawData (LLT_of_MVT queries_m1x2xi8)) = 8"
  by (simp add: LLT_defs queries_m1x2xi8_def)

section \<open>C6: isScalar and isVector\<close>

text \<open>
  C6, as amended. \<open>isScalar\<close> holds iff the count is not scalable and its magnitude is 1.
  \<open>isVector\<close> holds iff the magnitude exceeds 1, or the count carries the tag V and its
  magnitude is not zero. \<^verbatim>\<open>ElementCount::getFixed(1)\<close> is a scalar and
  \<^verbatim>\<open>ElementCount::getScalable(1)\<close> is a vector.
\<close>

theorem isScalar_isVector_char:
  "(isScalar c \<longleftrightarrow> \<not> isScalable c \<and> Quantity c = 1) \<and>
   (isVector c \<longleftrightarrow> Quantity c > 1 \<or> (Scale c = Scale_V \<and> Quantity c \<noteq> 0)) \<and>
   isScalar (ElementCount_getFixed 1) \<and> isVector (ElementCount_getScalable 1)"
  by (auto simp: isScalableV_iff isScalar_def isVector_def factory_defs quantity_defs)

text \<open>The theorem at \<^verbatim>\<open>ElementCount::getScalable(1)\<close>.\<close>

theorem isScalar_isVector_char_witness:
  "Scale (ElementCount_getScalable 1) = Scale_V \<and> Quantity (ElementCount_getScalable 1) \<noteq> 0 \<and>
   isVector (ElementCount_getScalable 1) \<and> \<not> isScalar (ElementCount_getScalable 1)"
  using isScalar_isVector_char [of "ElementCount_getScalable 1"]
  by (simp add: factory_defs quantity_defs)

text \<open>
  C6 as stated fails: \<^verbatim>\<open>ElementCount::get(1, ScaleID::M)\<close> carries a scale tag and a
  magnitude that is not zero, and is not a vector (and not a scalar).
\<close>

theorem isVector_M_scaled:
  "isScalable (ElementCount_get 1 Scale_M) \<and> Quantity (ElementCount_get 1 Scale_M) \<noteq> 0 \<and>
   \<not> isVector (ElementCount_get 1 Scale_M) \<and> \<not> isScalar (ElementCount_get 1 Scale_M)"
  by (simp add: isScalar_def isVector_def isScalableV_def factory_defs quantity_defs)

section \<open>C7: alignTo\<close>

text \<open>
  C7. The alignment \<open>2^63 + 1\<close> is not zero and \<^verbatim>\<open>alignTo(1, n)\<close> is \<open>n\<close>. That size is
  a multiple of \<open>n\<close> already, and \<^verbatim>\<open>alignTo(n, n)\<close> is 0: \<^verbatim>\<open>Size + Align - 1\<close> wraps around.
  So \<^verbatim>\<open>alignTo(alignTo(1, n), n)\<close> is not \<^verbatim>\<open>alignTo(1, n)\<close>.
\<close>

theorem alignTo_not_idempotent:
  "(9223372036854775809 :: 64 word) \<noteq> 0 \<and>
   alignTo (TypeSize_getFixed 1) 9223372036854775809
     = Inr (TypeSize_getFixed 9223372036854775809) \<and>
   (9223372036854775809 :: 64 word) mod 9223372036854775809 = 0 \<and>
   alignTo (TypeSize_getFixed 9223372036854775809) 9223372036854775809
     = Inr (TypeSize_getFixed 0) \<and>
   alignTo_twice (TypeSize_getFixed 1) 9223372036854775809 = Inr (TypeSize_getFixed 0) \<and>
   alignTo_twice (TypeSize_getFixed 1) 9223372036854775809
     \<noteq> alignTo (TypeSize_getFixed 1) 9223372036854775809"
  by (simp add: alignTo_def alignTo_twice_def factory_defs quantity_defs)

section \<open>C8: the extended fallback of getEVT\<close>

text \<open>
  C8. For an integer type whose bit width has no tag in the enumeration, \<open>getEVT\<close>
  returns an extended EVT, and \<open>getExtendedSizeInBits\<close> of it is the fixed TypeSize of
  that bit width.
\<close>

theorem extended_integer_fallback:
  assumes "MVT_getIntegerVT BitWidth = INVALID_SIMPLE_VALUE_TYPE"
  shows "\<exists>VT. getEVT Context (IntegerTy BitWidth) HandleUnknown = Inr VT \<and> isExtended VT \<and>
           getExtendedSizeInBits getPrimitiveSizeInBits VT
             = Inr (TypeSize_getFixed (ucast BitWidth)) \<and>
           \<not> isScalable (TypeSize_getFixed (ucast BitWidth)) \<and>
           unat (getKnownMinValue (TypeSize_getFixed (ucast BitWidth))) = unat BitWidth"
  using assms
  by (simp add: EVT_getIntegerVT_def getExtendedIntegerVT_def assert_extended_def isExtended_def
      EVT_default_def getExtendedSizeInBits_def TypeSize_getFixed_def quantity_defs
      unat_ucast_32_64)

text \<open>The theorem at the 17-bit integer type.\<close>

theorem extended_integer_fallback_witness:
  "MVT_getIntegerVT 17 = INVALID_SIMPLE_VALUE_TYPE \<and>
   getEVT Context_wasm_pointers (IntegerTy 17) False
     = Inr \<lparr>V = INVALID_SIMPLE_VALUE_TYPE, LLVMTy = Some (IntegerTy 17)\<rparr> \<and>
   isExtended \<lparr>V = INVALID_SIMPLE_VALUE_TYPE, LLVMTy = Some (IntegerTy 17)\<rparr> \<and>
   getExtendedSizeInBits (\<lambda>Ty. TypeSize_getFixed 0)
       \<lparr>V = INVALID_SIMPLE_VALUE_TYPE, LLVMTy = Some (IntegerTy 17)\<rparr>
     = Inr (TypeSize_getFixed 17)"
  using extended_integer_fallback [of 17 Context_wasm_pointers False "\<lambda>Ty. TypeSize_getFixed 0"]
  by (simp add: MVT_getIntegerVT_def EVT_getIntegerVT_def getExtendedIntegerVT_def
      assert_extended_def isExtended_def EVT_default_def)

section \<open>C9: getFixedValue\<close>

text \<open>
  C9. \<open>getFixedValue\<close> returns the magnitude exactly when the quantity is not scalable or
  is zero, and fails its assertion exactly when the quantity is scalable and not zero;
  it has no other result.
\<close>

theorem getFixedValue_char:
  "(getFixedValue q = Inr (Quantity q) \<longleftrightarrow> \<not> isScalable q \<or> isZero q) \<and>
   (getFixedValue q = Inl Fixed_request_on_scalable \<longleftrightarrow> isScalable q \<and> \<not> isZero q) \<and>
   (\<forall>e. getFixedValue q = Inl e \<longrightarrow> e = Fixed_request_on_scalable) \<and>
   (\<forall>v. getFixedValue q = Inr v \<longrightarrow> v = Quantity q)"
  by (auto simp: getFixedValue_def getKnownMinValue_def)

text \<open>
  The theorem at \<^verbatim>\<open>TypeSize::getScalable(4)\<close>, \<^verbatim>\<open>TypeSize::getScalable(0)\<close> and
  \<^verbatim>\<open>TypeSize::getFixed(4)\<close>.
\<close>

theorem getFixedValue_char_witness:
  "isScalable (TypeSize_getScalable 4) \<and> \<not> isZero (TypeSize_getScalable 4) \<and>
   getFixedValue (TypeSize_getScalable 4) = Inl Fixed_request_on_scalable \<and>
   getFixedValue (TypeSize_getScalable 0) = Inr 0 \<and>
   getFixedValue (TypeSize_getFixed 4) = Inr 4"
  using getFixedValue_char [of "TypeSize_getScalable 4"]
    getFixedValue_char [of "TypeSize_getScalable 0"]
    getFixedValue_char [of "TypeSize_getFixed 4"]
  by (simp add: factory_defs quantity_defs)

section \<open>C10: division of the coefficient\<close>

text \<open>
  C10, as amended. \<open>divideCoefficientBy\<close> divides by zero exactly when its divisor is
  zero. \<open>hasKnownScalarFactor\<close> divides by zero exactly when the two tags are equal and
  the magnitude of the divisor is zero: with different tags the \<^verbatim>\<open>%\<close> is not evaluated.
  With a non-zero divisor both return: the quotient with the tag unchanged, and whether
  the tags agree and the remainder is zero.
\<close>

theorem coefficient_division_defined:
  "(divideCoefficientBy q r = Inl Division_by_zero \<longleftrightarrow> r = 0) \<and>
   (r \<noteq> 0 \<longrightarrow> divideCoefficientBy q r = Inr (get (Quantity q div r) (Scale q))) \<and>
   (hasKnownScalarFactor q R = Inl Division_by_zero \<longleftrightarrow> Scale q = Scale R \<and> Quantity R = 0) \<and>
   (Quantity R \<noteq> 0 \<longrightarrow>
      hasKnownScalarFactor q R = Inr (Scale q = Scale R \<and> Quantity q mod Quantity R = 0)) \<and>
   (Scale q \<noteq> Scale R \<longrightarrow> hasKnownScalarFactor q R = Inr False)"
  by (auto simp: divideCoefficientBy_def hasKnownScalarFactor_def getKnownMinValue_def
      getScale_def)

text \<open>
  The theorem at \<^verbatim>\<open>TypeSize::getScalable(12)\<close> with the divisors 4, \<^verbatim>\<open>getScalable(4)\<close> and
  \<^verbatim>\<open>getFixed(0)\<close>.
\<close>

theorem coefficient_division_defined_witness:
  "(4 :: 64 word) \<noteq> 0 \<and> Quantity (TypeSize_getScalable 4) \<noteq> 0 \<and>
   divideCoefficientBy (TypeSize_getScalable 12) 4 = Inr (TypeSize_getScalable 3) \<and>
   hasKnownScalarFactor (TypeSize_getScalable 12) (TypeSize_getScalable 4) = Inr True \<and>
   Scale (TypeSize_getScalable 12) \<noteq> Scale (TypeSize_getFixed 0) \<and>
   hasKnownScalarFactor (TypeSize_getScalable 12) (TypeSize_getFixed 0) = Inr False"
  using coefficient_division_defined
    [of "TypeSize_getScalable 12" 4 "TypeSize_getScalable 4"]
    coefficient_division_defined
    [of "TypeSize_getScalable 12" 4 "TypeSize_getFixed 0"]
  by (simp add: factory_defs quantity_defs)

text \<open>
  C10 as stated fails: the magnitude of the divisor is zero and \<open>hasKnownScalarFactor\<close>
  returns, because the tags differ.
\<close>

theorem hasKnownScalarFactor_zero_divisor:
  "getKnownMinValue (TypeSize_getScalable 0) = 0 \<and>
   hasKnownScalarFactor (TypeSize_getFixed 4) (TypeSize_getScalable 0) = Inr False"
  by (simp add: hasKnownScalarFactor_def factory_defs quantity_defs)

end
